theory Spec2Isabelle
  imports Main "HOL-Library.Word"
begin

section \<open>JavaScript strings\<close>

text \<open>
  A JavaScript string is a sequence of UTF-16 code units: \<open>length\<close> counts code units
  and a regular expression without the \<open>u\<close> flag matches code unit by code unit.
  String literals of the source are written \<open>js ''...''\<close>.
\<close>

type_synonym jschar = "16 word"
type_synonym jsstring = "jschar list"

definition js :: "string \<Rightarrow> jsstring" where
  "js s = map of_char s"

text \<open>
  The class \<open>\s\<close> of ECMAScript: TAB, LF, VT, FF, CR, SPACE, NBSP, U+1680,
  U+2000..U+200A, U+2028, U+2029, U+202F, U+205F, U+3000 and U+FEFF.
\<close>

definition isSpace :: "jschar \<Rightarrow> bool" where
  "isSpace c \<longleftrightarrow>
     c = 0x09 \<or> c = 0x0A \<or> c = 0x0B \<or> c = 0x0C \<or> c = 0x0D \<or> c = 0x20 \<or> c = 0xA0 \<or>
     c = 0x1680 \<or> (0x2000 \<le> c \<and> c \<le> 0x200A) \<or> c = 0x2028 \<or> c = 0x2029 \<or>
     c = 0x202F \<or> c = 0x205F \<or> c = 0x3000 \<or> c = 0xFEFF"

text \<open>The class \<open>\w\<close>: the ASCII letters, the digits and the underscore.\<close>

definition isWord :: "jschar \<Rightarrow> bool" where
  "isWord c \<longleftrightarrow>
     (0x30 \<le> c \<and> c \<le> 0x39) \<or> (0x41 \<le> c \<and> c \<le> 0x5A) \<or> c = 0x5F \<or>
     (0x61 \<le> c \<and> c \<le> 0x7A)"

text \<open>
  \<open>s.split(/\s+/)\<close>: the text before the first whitespace character is a piece, the
  whole whitespace run that starts there is the separator, and the rest is split in the
  same way. A string without whitespace is its own single piece, so the empty string
  gives one empty piece, and a string that starts or ends with whitespace gives an empty
  first or last piece.
\<close>

function split_ws :: "jsstring \<Rightarrow> jsstring list" where
  "split_ws s =
     (case dropWhile (\<lambda>c. \<not> isSpace c) s of
        [] \<Rightarrow> [s]
      | _ # rest \<Rightarrow> takeWhile (\<lambda>c. \<not> isSpace c) s # split_ws (dropWhile isSpace rest))"
  by pat_completeness auto
termination
proof (relation "measure length")
  show "wf (measure length)" by simp
next
  fix s :: jsstring and x rest
  assume d: "dropWhile (\<lambda>c. \<not> isSpace c) s = x # rest"
  have "length (dropWhile isSpace rest) \<le> length rest"
    by (rule length_dropWhile_le)
  also have "length rest < length (dropWhile (\<lambda>c. \<not> isSpace c) s)"
    using d by simp
  also have "\<dots> \<le> length s"
    by (rule length_dropWhile_le)
  finally show "(dropWhile isSpace rest, s) \<in> measure length" by simp
qed

declare split_ws.simps [simp del]

text \<open>\<open>word.replace(/[^\w\s]/g, '')\<close>: every character that is neither a word
  character nor whitespace is deleted.\<close>

definition replace_nonword :: "jsstring \<Rightarrow> jsstring" where
  "replace_nonword word = filter (\<lambda>c. isWord c \<or> isSpace c) word"

text \<open>\<open>xs.join(sep)\<close> on an array of strings.\<close>

fun join :: "jsstring \<Rightarrow> jsstring list \<Rightarrow> jsstring" where
  "join sep [] = []"
| "join sep [x] = x"
| "join sep (x # y # ys) = x @ sep @ join sep (y # ys)"

section \<open>Keyword extraction\<close>

text \<open>
  Both clients derive the keywords of a title or summary with the same chain
  (\<open>getTopicallyRelatedPages\<close> and \<open>getRelatedIssues\<close>):
  \<^verbatim>\<open>.split(/\s+/).filter(word => word.length > 3).map(word => word.replace(/[^\w\s]/g, ''))\<close>
\<close>

definition extractKeywords :: "jsstring \<Rightarrow> jsstring list" where
  "extractKeywords title =
     map replace_nonword (filter (\<lambda>word. length word > 3) (split_ws title))"


text \<open>
  The three steps of the specification, read as a tokenizer: a token is a maximal run of
  characters that are not whitespace (so no token is empty), tokens of at most three
  characters are discarded, and the punctuation of the remaining ones is deleted.
  This definition follows the specification, not the source; it is compared with
  \<open>extractKeywords\<close> below.
\<close>

function spec_tokens :: "jsstring \<Rightarrow> jsstring list" where
  "spec_tokens s =
     (case dropWhile isSpace s of
        [] \<Rightarrow> []
      | c # r \<Rightarrow>
          (c # takeWhile (\<lambda>c. \<not> isSpace c) r) # spec_tokens (dropWhile (\<lambda>c. \<not> isSpace c) r))"
  by pat_completeness auto
termination
proof (relation "measure length")
  show "wf (measure length)" by simp
next
  fix s :: jsstring and c r
  assume d: "dropWhile isSpace s = c # r"
  have "length (dropWhile (\<lambda>c. \<not> isSpace c) r) \<le> length r"
    by (rule length_dropWhile_le)
  also have "length r < length (dropWhile isSpace s)"
    using d by simp
  also have "\<dots> \<le> length s"
    by (rule length_dropWhile_le)
  finally show "(dropWhile (\<lambda>c. \<not> isSpace c) r, s) \<in> measure length" by simp
qed

declare spec_tokens.simps [simp del]

definition spec_keywords :: "jsstring \<Rightarrow> jsstring list" where
  "spec_keywords text =
     map (filter (\<lambda>c. isWord c \<or> isSpace c)) (filter (\<lambda>t. \<not> length t \<le> 3) (spec_tokens text))"

section \<open>Pages, issues and the remote services\<close>

text \<open>
  Modelled from the spec: the declaration of a page's \<open>metadata.labels.results\<close>
  (\<open>confluenceTypes\<close>) is not among the sources; a label is a tag with a \<open>name\<close>.
  \<open>metadata_labels_results\<close> is \<open>None\<close> when \<open>metadata\<close>, \<open>labels\<close> or
  \<open>results\<close> is absent, which is what the optional chain
  \<open>sourcePage.metadata?.labels?.results\<close> tests. \<open>body_storage_value\<close> stands for
  \<open>page.body?.storage?.value\<close> in the same way. Fields the modelled code never
  reads are the extension part of each record.
\<close>

record ConfluenceLabel =
  name :: jsstring

record SimplePageResult =
  id' :: jsstring
  status :: jsstring
  title :: jsstring
  content :: jsstring

record ConfluencePage =
  id' :: jsstring
  status :: jsstring
  title :: jsstring
  body_storage_value :: "jsstring option"
  metadata_labels_results :: "ConfluenceLabel list option"

record ConfluencePageListResponse =
  results :: "ConfluencePage list"
  size' :: int

text \<open>
  A Jira issue with the parts of \<open>fields\<close> that the code reads: \<open>fields.summary\<close>,
  \<open>fields.labels\<close>, \<open>fields.project.key\<close> and \<open>fields.issuetype?.name\<close>.
  Summary and labels are tested for presence by the code, so they are optional here.
\<close>

record JiraIssue =
  key :: jsstring
  fields_summary :: "jsstring option"
  fields_labels :: "jsstring list option"
  fields_project_key :: jsstring
  fields_issuetype_name :: "jsstring option"

text \<open>\<open>maxResults\<close>, \<open>total\<close>, \<open>startAt\<close> and every other field of an issue list
  are the extension part of the record.\<close>

record JiraIssueListResponse =
  issues :: "JiraIssue list"

text \<open>An error thrown by the HTTP client: \<open>error.response\<close> is present when the server
  answered with a failure status, absent on a transport failure.\<close>

record http_response =
  status :: nat
  statusText :: jsstring

record axios_error =
  response :: "http_response option"
  message :: jsstring

text \<open>The requests a client sends, with the parameters it puts on each.\<close>

datatype request =
    GET_content jsstring jsstring
  | GET_content_search jsstring int jsstring
  | GET_issue jsstring "jsstring option"
  | GET_search jsstring int int "jsstring option"
  | GET_sprint_issue int int int

text \<open>The observable effects: the requests sent and the lines written to
  \<open>console.error\<close>, both in order.\<close>

record world =
  requests :: "request list"
  console :: "jsstring list"

text \<open>The remote services: what each endpoint answers to a request.\<close>

record 'r ConfluenceApi =
  get_content :: "jsstring \<Rightarrow> jsstring \<Rightarrow> axios_error + ConfluencePage"
  get_content_search :: "jsstring \<Rightarrow> int \<Rightarrow> jsstring \<Rightarrow> axios_error + 'r ConfluencePageListResponse_scheme"

record ('r, 's) JiraApi =
  get_issue :: "jsstring \<Rightarrow> jsstring option \<Rightarrow> axios_error + JiraIssue"
  get_search :: "jsstring \<Rightarrow> int \<Rightarrow> int \<Rightarrow> jsstring option \<Rightarrow> axios_error + 'r JiraIssueListResponse_scheme"
  get_sprint_issue :: "int \<Rightarrow> int \<Rightarrow> int \<Rightarrow> axios_error + 's JiraIssueListResponse_scheme"

text \<open>A number in a template literal, for the natural numbers: its decimal digits.\<close>

fun number_toString :: "nat \<Rightarrow> jsstring" where
  "number_toString n =
     (if n < 10 then [of_nat (48 + n)]
      else number_toString (n div 10) @ [of_nat (48 + n mod 10)])"

declare number_toString.simps [simp del]


section \<open>Query synthesis\<close>

text \<open>
  The query of \<open>getTopicallyRelatedPages\<close>, from the page identifier, the keywords
  of the title and the labels of the source page: the statements from
  \<open>let relatedQuery = ...\<close> to the last \<open>relatedQuery += ...\<close>.
\<close>

definition buildRelatedQuery :: "jsstring \<Rightarrow> jsstring list \<Rightarrow> ConfluenceLabel list \<Rightarrow> jsstring" where
  \<open>buildRelatedQuery pageId keywords labels =
     (let relatedQuery = js ''type = page AND id != '' @ pageId;
          relatedQuery =
            (if length keywords > 0
             then (let titleTerms =
                         join (js '' OR '') (map (\<lambda>word. js ''title ~ "'' @ word @ js ''"'') keywords)
                   in relatedQuery @ js '' AND ('' @ titleTerms @ js '')'')
             else relatedQuery)
      in if length labels > 0
         then (let labelNames = map name labels;
                   labelTerms =
                     join (js '' OR '') (map (\<lambda>name. js ''labelText = "'' @ name @ js ''"'') labelNames)
               in relatedQuery @
                  (if length keywords > 0 then js '' OR ('' @ labelTerms @ js '')''
                   else js '' AND ('' @ labelTerms @ js '')''))
         else relatedQuery)\<close>

definition relatedQuery :: "jsstring \<Rightarrow> 'a ConfluencePage_scheme \<Rightarrow> jsstring" where
  "relatedQuery pageId sourcePage =
     buildRelatedQuery pageId (extractKeywords (ConfluencePage.title sourcePage))
       (case metadata_labels_results sourcePage of None \<Rightarrow> [] | Some labels \<Rightarrow> labels)"

text \<open>
  The query of \<open>getRelatedIssues\<close>: the clauses pushed on \<open>relatedQueries\<close>, joined
  and closed by the exclusion of the issue and the ordering. A summary that is absent or
  empty is falsy and contributes nothing; so do labels that are absent or empty.
\<close>

definition relatedJql :: "jsstring \<Rightarrow> 'a JiraIssue_scheme \<Rightarrow> jsstring" where
  \<open>relatedJql issueKey issue =
     (let relatedQueries = [js ''project = '' @ fields_project_key issue];
          relatedQueries =
            (case fields_summary issue of
               None \<Rightarrow> relatedQueries
             | Some text \<Rightarrow>
                 if text = [] then relatedQueries
                 else (let keywords = extractKeywords text
                       in if length keywords > 0
                          then (let keywordQuery =
                                      join (js '' OR '')
                                        (map (\<lambda>word. js ''summary ~ "'' @ word @ js ''"'') keywords)
                                in relatedQueries @ [js ''('' @ keywordQuery @ js '')''])
                          else relatedQueries));
          relatedQueries =
            (case fields_labels issue of
               None \<Rightarrow> relatedQueries
             | Some ls \<Rightarrow>
                 if length ls > 0
                 then (let labelQuery =
                             join (js '' OR '') (map (\<lambda>label. js ''labels = "'' @ label @ js ''"'') ls)
                       in relatedQueries @ [js ''('' @ labelQuery @ js '')''])
                 else relatedQueries)
      in js ''('' @ join (js '' OR '') relatedQueries @ js '') AND issuekey != '' @ issueKey @
         js '' ORDER BY updated DESC'')\<close>

section \<open>The Confluence client\<close>

text \<open>
  Every operation takes the remote service and the effects so far and returns its
  outcome with the effects after it: \<open>Inl\<close> is the error it throws, \<open>Inr\<close> the value it
  returns. \<open>handleError\<close> writes to the console and throws the error it was given.
\<close>

definition Confluence_handleError :: "axios_error \<Rightarrow> world \<Rightarrow> (axios_error + 'a) \<times> world" where
  "Confluence_handleError error w =
     (Inl error,
      w\<lparr>console := console w @
         (case response error of
            Some r \<Rightarrow>
              [js ''Error: '' @ number_toString (http_response.status r) @ js '' - '' @ statusText r] @
              (if http_response.status r = 401
               then [js ''Authentication failed. Please check your email and API token.'']
               else if http_response.status r = 404
               then [js ''Resource not found. Please check your Confluence domain and the requested resource.'']
               else [])
          | None \<Rightarrow> [js ''An unexpected error occurred: '' @ message error])\<rparr>)"

definition getPageById ::
  "'r ConfluenceApi \<Rightarrow> jsstring \<Rightarrow> jsstring list option \<Rightarrow> world \<Rightarrow> (axios_error + ConfluencePage) \<times> world" where
  "getPageById api pageId expand w =
     (let expand = (case expand of None \<Rightarrow> [js ''body.storage''] | Some e \<Rightarrow> e);
          w = w\<lparr>requests := requests w @ [GET_content pageId (join (js '','') expand)]\<rparr>
      in case get_content api pageId (join (js '','') expand) of
           Inr data \<Rightarrow> (Inr data, w)
         | Inl error \<Rightarrow> Confluence_handleError error w)"

definition getTopicallyRelatedPages ::
  "'r ConfluenceApi \<Rightarrow> jsstring \<Rightarrow> int option \<Rightarrow> jsstring list option \<Rightarrow> world \<Rightarrow>
     (axios_error + 'r ConfluencePageListResponse_scheme) \<times> world" where
  "getTopicallyRelatedPages api pageId limit expand w =
     (let limit = (case limit of None \<Rightarrow> 10 | Some n \<Rightarrow> n);
          expand = (case expand of None \<Rightarrow> [js ''body.storage''] | Some e \<Rightarrow> e)
      in case getPageById api pageId (Some [js ''metadata.labels'']) w of
           (Inl error, w) \<Rightarrow> Confluence_handleError error w
         | (Inr sourcePage, w) \<Rightarrow>
             (let cql = relatedQuery pageId sourcePage;
                  w = w\<lparr>requests := requests w @ [GET_content_search cql limit (join (js '','') expand)]\<rparr>
              in case get_content_search api cql limit (join (js '','') expand) of
                   Inr data \<Rightarrow> (Inr data, w)
                 | Inl error \<Rightarrow> Confluence_handleError error w))"


section \<open>The Jira client\<close>

definition Jira_handleError :: "axios_error \<Rightarrow> world \<Rightarrow> (axios_error + 'a) \<times> world" where
  "Jira_handleError error w =
     (Inl error,
      w\<lparr>console := console w @
         (case response error of
            Some r \<Rightarrow>
              [js ''Error: '' @ number_toString (http_response.status r) @ js '' - '' @ statusText r] @
              (if http_response.status r = 401
               then [js ''Authentication failed. Please check your email and API token.'']
               else if http_response.status r = 403
               then [js ''Permission denied. You do not have access to this resource.'']
               else if http_response.status r = 404
               then [js ''Resource not found. Please check the requested resource exists.'']
               else [])
          | None \<Rightarrow> [js ''An unexpected error occurred: '' @ message error])\<rparr>)"

text \<open>\<open>params.fields\<close> is set only for a list of fields that is given and not empty.\<close>

definition fields_param :: "jsstring list option \<Rightarrow> jsstring option" where
  "fields_param fields' =
     (case fields' of
        None \<Rightarrow> None
      | Some fs \<Rightarrow> if length fs > 0 then Some (join (js '','') fs) else None)"

definition getIssue ::
  "('r, 's) JiraApi \<Rightarrow> jsstring \<Rightarrow> jsstring list option \<Rightarrow> world \<Rightarrow> (axios_error + JiraIssue) \<times> world" where
  "getIssue api issueKey fields' w =
     (let w = w\<lparr>requests := requests w @ [GET_issue issueKey (fields_param fields')]\<rparr>
      in case get_issue api issueKey (fields_param fields') of
           Inr data \<Rightarrow> (Inr data, w)
         | Inl error \<Rightarrow> Jira_handleError error w)"

definition searchIssues ::
  "('r, 's) JiraApi \<Rightarrow> jsstring \<Rightarrow> int option \<Rightarrow> int option \<Rightarrow> jsstring list option \<Rightarrow> world \<Rightarrow>
     (axios_error + 'r JiraIssueListResponse_scheme) \<times> world" where
  "searchIssues api jql startAt maxResults fields' w =
     (let startAt = (case startAt of None \<Rightarrow> 0 | Some n \<Rightarrow> n);
          maxResults = (case maxResults of None \<Rightarrow> 50 | Some n \<Rightarrow> n);
          w = w\<lparr>requests := requests w @ [GET_search jql startAt maxResults (fields_param fields')]\<rparr>
      in case get_search api jql startAt maxResults (fields_param fields') of
           Inr data \<Rightarrow> (Inr data, w)
         | Inl error \<Rightarrow> Jira_handleError error w)"

text \<open>
  \<open>issueTypes.includes(issue.fields.issuetype?.name)\<close>: an issue without an issue type
  has the name \<open>undefined\<close>, which no list of strings includes.
\<close>

definition getSprintIssues ::
  "('r, 's) JiraApi \<Rightarrow> int \<Rightarrow> int option \<Rightarrow> int option \<Rightarrow> jsstring list option \<Rightarrow> world \<Rightarrow>
     (axios_error + 's JiraIssueListResponse_scheme) \<times> world" where
  "getSprintIssues api sprintId startAt maxResults issueTypes w =
     (let startAt = (case startAt of None \<Rightarrow> 0 | Some n \<Rightarrow> n);
          maxResults = (case maxResults of None \<Rightarrow> 50 | Some n \<Rightarrow> n);
          w = w\<lparr>requests := requests w @ [GET_sprint_issue sprintId startAt maxResults]\<rparr>
      in case get_sprint_issue api sprintId startAt maxResults of
           Inr data \<Rightarrow>
             (let found = issues data;
                  found =
                    (case issueTypes of
                       None \<Rightarrow> found
                     | Some types \<Rightarrow>
                         if length types > 0
                         then filter (\<lambda>issue.
                                case fields_issuetype_name issue of
                                  None \<Rightarrow> False
                                | Some n \<Rightarrow> n \<in> set types) found
                         else found)
              in (Inr (data\<lparr>issues := found\<rparr>), w))
         | Inl error \<Rightarrow> Jira_handleError error w)"

definition getRelatedIssues ::
  "('r, 's) JiraApi \<Rightarrow> jsstring \<Rightarrow> world \<Rightarrow> (axios_error + JiraIssue list) \<times> world" where
  "getRelatedIssues api issueKey w =
     (case getIssue api issueKey (Some [js ''summary'', js ''labels'', js ''project'']) w of
        (Inl error, w) \<Rightarrow> Jira_handleError error w
      | (Inr issue, w) \<Rightarrow>
          (let jql = relatedJql issueKey issue
           in case searchIssues api jql (Some 0) (Some 10) None w of
                (Inr searchResult, w) \<Rightarrow> (Inr (issues searchResult), w)
              | (Inl error, w) \<Rightarrow> Jira_handleError error w))"

section \<open>The tool layer\<close>

text \<open>
  What a tool can catch: an error of the HTTP client, passed on by a client operation,
  or a \<open>UserError\<close> with its message. The \<open>handleError\<close> of the tool layer turns
  either into the \<open>UserError\<close> it throws.
\<close>

datatype thrown = AxiosError axios_error | UserError jsstring

definition index_handleError :: "thrown \<Rightarrow> thrown" where
  "index_handleError error =
     (case error of
        AxiosError e \<Rightarrow>
          (case response e of
             Some r \<Rightarrow>
               if http_response.status r = 401
               then UserError (js ''Authentication Error: Failed to authenticate with Confluence. Please check your credentials.'')
               else if http_response.status r = 403
               then UserError (js ''Permission Error: You do not have permission to access this resource in Confluence.'')
               else if http_response.status r = 404
               then UserError (js ''Not Found Error: The requested Confluence resource could not be found. Please check the provided ID or parameters.'')
               else UserError (js ''Confluence API Error: '' @ number_toString (http_response.status r) @
                               js '' '' @ statusText r)
           | None \<Rightarrow> UserError (js ''An unexpected error occurred: '' @ message e))
      | UserError m \<Rightarrow> UserError m)"

text \<open>
  The tools \<open>getRelatedPages\<close> and \<open>getRelatedIssues\<close>. The client is \<open>None\<close> when
  the environment lacks the settings, and creating it throws a \<open>UserError\<close>. The value
  returned is the object that the tool hands to \<open>JSON.stringify\<close>.
\<close>

record RelatedPagesResult =
  content :: "SimplePageResult list"
  totalCount :: int
  relatedToPageId :: jsstring

definition getRelatedPages_execute ::
  "'r ConfluenceApi option \<Rightarrow> jsstring \<Rightarrow> int option \<Rightarrow> world \<Rightarrow> (thrown + RelatedPagesResult) \<times> world" where
  "getRelatedPages_execute client pageId limit w =
     (case client of
        None \<Rightarrow>
          (Inl (index_handleError (UserError
             (js ''Please set ATLASSIAN_DOMAIN, ATLASSIAN_USER, and ATLASSIAN_TOKEN in the .env file''))), w)
      | Some api \<Rightarrow>
          (case getTopicallyRelatedPages api pageId
                  (Some (case limit of None \<Rightarrow> 10 | Some n \<Rightarrow> if n = 0 then 10 else n))
                  (Some [js ''body.storage'']) w of
             (Inl error, w) \<Rightarrow> (Inl (index_handleError (AxiosError error)), w)
           | (Inr pagesResponse, w) \<Rightarrow>
               (Inr \<lparr>content =
                       map (\<lambda>page.
                              \<lparr>SimplePageResult.id' = ConfluencePage.id' page,
                               SimplePageResult.status = ConfluencePage.status page,
                               SimplePageResult.title = ConfluencePage.title page,
                               SimplePageResult.content =
                                 (case body_storage_value page of
                                    None \<Rightarrow> []
                                  | Some v \<Rightarrow> v)\<rparr>)
                         (results pagesResponse),
                     totalCount = size' pagesResponse,
                     relatedToPageId = pageId\<rparr>, w)))"

definition getRelatedIssues_execute ::
  "('r, 's) JiraApi option \<Rightarrow> jsstring \<Rightarrow> world \<Rightarrow> (thrown + JiraIssue list) \<times> world" where
  "getRelatedIssues_execute jiraClient issueKey w =
     (case jiraClient of
        None \<Rightarrow>
          (Inl (index_handleError (UserError
             (js ''Please set ATLASSIAN_DOMAIN, ATLASSIAN_USER, and ATLASSIAN_TOKEN in the .env file''))), w)
      | Some api \<Rightarrow>
          (case getRelatedIssues api issueKey w of
             (Inl error, w) \<Rightarrow> (Inl (index_handleError (AxiosError error)), w)
           | (Inr related, w) \<Rightarrow> (Inr related, w)))"


section \<open>Example services\<close>

text \<open>
  Remote services with fixed answers, on which the operations are evaluated below. The
  wiki knows one page, 123, titled \<open>Meeting notes\<close> and labelled \<open>oncall\<close>; the
  tracker knows the issue TEST-123 of the client's test (\<open>mockIssue\<close>), answers every
  search with three other issues and has a sprint of all four. Every other identifier is
  answered with status 404; \<open>unreachable\<close> is the error of a request that got no answer.
\<close>

definition not_found :: axios_error where
  "not_found =
     \<lparr>response = Some \<lparr>status = 404, statusText = js ''Not Found''\<rparr>,
      message = js ''Request failed with status code 404''\<rparr>"

definition unreachable :: axios_error where
  "unreachable = \<lparr>response = None, message = js ''connect ECONNREFUSED''\<rparr>"

definition oncall_page :: ConfluencePage where
  "oncall_page =
     \<lparr>id' = js ''123'', status = js ''current'', title = js ''Meeting notes'',
      body_storage_value = None, metadata_labels_results = Some [\<lparr>name = js ''oncall''\<rparr>]\<rparr>"

definition wiki :: "unit ConfluenceApi" where
  "wiki =
     \<lparr>get_content = (\<lambda>pageId expand. if pageId = js ''123'' then Inr oncall_page else Inl not_found),
      get_content_search = (\<lambda>cql limit expand. Inr \<lparr>results = [], size' = 0\<rparr>)\<rparr>"

definition mockIssue :: JiraIssue where
  "mockIssue =
     \<lparr>key = js ''TEST-123'', fields_summary = Some (js ''Test Issue''), fields_labels = None,
      fields_project_key = js ''TEST'', fields_issuetype_name = Some (js ''Story'')\<rparr>"

definition other_issues :: "JiraIssue list" where
  "other_issues =
     [mockIssue\<lparr>key := js ''TEST-124'', fields_issuetype_name := Some (js ''Task'')\<rparr>,
      mockIssue\<lparr>key := js ''TEST-125'', fields_issuetype_name := Some (js ''Bug'')\<rparr>,
      mockIssue\<lparr>key := js ''TEST-126'', fields_issuetype_name := None\<rparr>]"

definition sprint_issues :: "JiraIssue list" where
  "sprint_issues = mockIssue # other_issues"

text \<open>The extension of the sprint's answer holds \<open>maxResults\<close>, \<open>total\<close> and
  \<open>startAt\<close>, in this order.\<close>

definition tracker :: "(unit, int \<times> int \<times> int) JiraApi" where
  "tracker =
     \<lparr>get_issue = (\<lambda>issueKey fields'. if issueKey = js ''TEST-123'' then Inr mockIssue else Inl not_found),
      get_search = (\<lambda>jql startAt maxResults fields'. Inr \<lparr>issues = other_issues\<rparr>),
      get_sprint_issue = (\<lambda>sprintId startAt maxResults.
         Inr \<lparr>issues = sprint_issues, \<dots> = (maxResults, 4, startAt)\<rparr>)\<rparr>"

definition quiet :: world where
  "quiet = \<lparr>requests = [], console = []\<rparr>"

section \<open>Facts about splitting\<close>

lemma split_ws_no_space: "w \<in> set (split_ws s) \<Longrightarrow> c \<in> set w \<Longrightarrow> \<not> isSpace c"
proof (induction s arbitrary: w rule: split_ws.induct)
  case (1 s)
  show ?case
  proof (cases "dropWhile (\<lambda>c. \<not> isSpace c) s")
    case Nil
    with "1.prems" show ?thesis
      by (simp add: split_ws.simps [of s] dropWhile_eq_Nil_conv)
  next
    case (Cons x rest)
    with "1.prems" "1.IH" [OF Cons] show ?thesis
      by (auto simp: split_ws.simps [of s] dest: set_takeWhileD)
  qed
qed

lemma split_ws_token:
  assumes "\<forall>c\<in>set w. \<not> isSpace c"
  shows "split_ws w = [w]"
proof -
  from assms have d: "dropWhile (\<lambda>c. \<not> isSpace c) w = []" by simp
  show ?thesis by (simp add: split_ws.simps [of w] d)
qed

lemma spec_tokens_dropWhile: "spec_tokens (dropWhile isSpace s) = spec_tokens s"
  by (simp add: spec_tokens.simps [of s] spec_tokens.simps [of "dropWhile isSpace s"])

lemma spec_tokens_space_Cons: "isSpace c \<Longrightarrow> spec_tokens (c # s) = spec_tokens s"
  by (simp add: spec_tokens.simps [of s] spec_tokens.simps [of "c # s"])

lemma spec_tokens_all_space:
  assumes "\<forall>c\<in>set s. isSpace c"
  shows "spec_tokens s = []"
proof -
  from assms have d: "dropWhile isSpace s = []" by simp
  show ?thesis by (simp add: spec_tokens.simps [of s] d)
qed

lemma split_ws_nonempty_pieces: "filter (\<lambda>w. w \<noteq> []) (split_ws s) = spec_tokens s"
proof (induction s rule: split_ws.induct)
  case (1 s)
  show ?case
  proof (cases "dropWhile (\<lambda>c. \<not> isSpace c) s")
    case Nil
    then have ns: "\<forall>c\<in>set s. \<not> isSpace c" by (simp add: dropWhile_eq_Nil_conv)
    show ?thesis
    proof (cases s)
      case Nil
      then show ?thesis by (simp add: split_ws.simps [of "[]"] spec_tokens.simps [of "[]"])
    next
      case (Cons a t)
      with ns have "\<not> isSpace a" and t: "\<forall>c\<in>set t. \<not> isSpace c" by simp_all
      from t have tw: "takeWhile (\<lambda>c. \<not> isSpace c) t = t"
        and dw: "dropWhile (\<lambda>c. \<not> isSpace c) t = []"
        by simp_all
      from Cons \<open>\<not> isSpace a\<close> show ?thesis
        by (simp add: split_ws.simps [of "a # t"] spec_tokens.simps [of "a # t"]
            spec_tokens.simps [of "[]"] tw dw)
    qed
  next
    case (Cons x rest)
    then have x: "isSpace x"
      using hd_dropWhile [of "\<lambda>c. \<not> isSpace c" s] by simp
    have IH: "filter (\<lambda>w. w \<noteq> []) (split_ws (dropWhile isSpace rest)) = spec_tokens (dropWhile isSpace rest)"
      using "1.IH" [OF Cons] .
    have sw: "split_ws s = takeWhile (\<lambda>c. \<not> isSpace c) s # split_ws (dropWhile isSpace rest)"
      by (simp add: split_ws.simps [of s] Cons)
    show ?thesis
    proof (cases s)
      case Nil
      with Cons show ?thesis by simp
    next
      case s: (Cons a t)
      show ?thesis
      proof (cases "isSpace a")
        case True
        with s Cons have "rest = t" by simp
        with sw s True IH show ?thesis
          by (simp add: spec_tokens_dropWhile spec_tokens_space_Cons)
      next
        case False
        with s Cons have d: "dropWhile (\<lambda>c. \<not> isSpace c) t = x # rest" by simp
        have "spec_tokens s = (a # takeWhile (\<lambda>c. \<not> isSpace c) t) # spec_tokens (x # rest)"
          using s False d by (simp add: spec_tokens.simps [of "a # t"])
        also have "spec_tokens (x # rest) = spec_tokens rest"
          using x by (rule spec_tokens_space_Cons)
        finally show ?thesis
          using sw s False IH by (simp add: spec_tokens_dropWhile)
      qed
    qed
  qed
qed

lemma spec_tokens_append:
  "isSpace c \<Longrightarrow> spec_tokens (s @ c # t) = spec_tokens s @ spec_tokens t"
proof (induction s rule: spec_tokens.induct)
  case (1 s)
  show ?case
  proof (cases "dropWhile isSpace s")
    case Nil
    then have sp: "\<forall>x\<in>set s. isSpace x" by (simp add: dropWhile_eq_Nil_conv)
    then have "dropWhile isSpace (s @ c # t) = dropWhile isSpace (c # t)"
      by (simp add: dropWhile_append2)
    then have "spec_tokens (s @ c # t) = spec_tokens (c # t)"
      by (metis spec_tokens_dropWhile)
    also have "\<dots> = spec_tokens t"
      using "1.prems" by (rule spec_tokens_space_Cons)
    finally show ?thesis
      using sp by (simp add: spec_tokens_all_space)
  next
    case (Cons a r)
    have IH: "spec_tokens (dropWhile (\<lambda>c. \<not> isSpace c) r @ c # t) =
              spec_tokens (dropWhile (\<lambda>c. \<not> isSpace c) r) @ spec_tokens t"
      using "1.IH" [OF Cons "1.prems"] .
    from Cons obtain x where "x \<in> set s" "\<not> isSpace x"
      by (metis dropWhile_eq_Nil_conv list.distinct(1))
    then have d: "dropWhile isSpace (s @ c # t) = a # (r @ c # t)"
      using Cons by (simp add: dropWhile_append1)
    have tw: "takeWhile (\<lambda>c. \<not> isSpace c) (r @ c # t) = takeWhile (\<lambda>c. \<not> isSpace c) r"
    proof (cases "\<forall>y\<in>set r. \<not> isSpace y")
      case True
      then have r: "takeWhile (\<lambda>c. \<not> isSpace c) r = r" by simp
      from True "1.prems" show ?thesis by (simp add: takeWhile_append r)
    next
      case False
      then show ?thesis by (auto simp: takeWhile_append)
    qed
    have dw: "dropWhile (\<lambda>c. \<not> isSpace c) (r @ c # t) = dropWhile (\<lambda>c. \<not> isSpace c) r @ c # t"
    proof (cases "\<forall>y\<in>set r. \<not> isSpace y")
      case True
      then show ?thesis using "1.prems" by (simp add: dropWhile_append)
    next
      case False
      then show ?thesis by (auto simp: dropWhile_append)
    qed
    have "spec_tokens (s @ c # t) =
          (a # takeWhile (\<lambda>c. \<not> isSpace c) r) # spec_tokens (dropWhile (\<lambda>c. \<not> isSpace c) r @ c # t)"
      by (simp add: spec_tokens.simps [of "s @ c # t"] d tw dw)
    also have "\<dots> = spec_tokens s @ spec_tokens t"
      by (simp add: IH spec_tokens.simps [of s] Cons)
    finally show ?thesis .
  qed
qed

lemma long_pieces: "filter (\<lambda>word. 3 < length word) (split_ws s) = filter (\<lambda>t. 3 < length t) (spec_tokens s)"
proof -
  have "filter (\<lambda>t. 3 < length t) (spec_tokens s) =
        filter (\<lambda>t. 3 < length t) (filter (\<lambda>w. w \<noteq> []) (split_ws s))"
    by (simp only: split_ws_nonempty_pieces)
  also have "\<dots> = filter (\<lambda>word. 3 < length word) (split_ws s)"
    by (auto simp: filter_filter intro: filter_cong)
  finally show ?thesis by simp
qed

lemma extractKeywords_spec: "extractKeywords s = spec_keywords s"
  by (simp add: extractKeywords_def spec_keywords_def long_pieces replace_nonword_def [abs_def] not_le)

lemma isWord_not_isSpace: "isWord c \<Longrightarrow> \<not> isSpace c"
  unfolding isWord_def isSpace_def by (auto simp: word_le_nat_alt word_unat_eq_iff)

lemma replace_nonword_word: "\<forall>c\<in>set w. isWord c \<Longrightarrow> replace_nonword w = w"
  by (simp add: replace_nonword_def)

section \<open>Keyword extraction: the claims\<close>

text \<open>
  C3, as stated: every keyword has more than three characters after the punctuation is
  deleted. The code measures the length before it deletes the punctuation: the title
  \<open>Q&A: (WIP) ---- notes\<close> has the keywords \<open>QA\<close>, \<open>WIP\<close>, the empty string and
  \<open>notes\<close>.
\<close>

theorem extractKeywords_short_counterexample:
  "js ''QA'' \<in> set (extractKeywords (js ''Q&A: (WIP) ---- notes'')) \<and> length (js ''QA'') = 2 \<and>
   [] \<in> set (extractKeywords (js ''Q&A: (WIP) ---- notes''))"
  by code_simp

text \<open>
  C3, amended: every keyword is what deleting the punctuation leaves of a piece of the
  title (between whitespace runs) that had more than three characters before the
  deletion; the keyword is not longer than that piece and holds word characters only.
\<close>

theorem extractKeywords_long_before_stripping:
  assumes "k \<in> set (extractKeywords s)"
  shows "\<exists>word\<in>set (split_ws s).
           3 < length word \<and> k = replace_nonword word \<and> length k \<le> length word \<and>
           (\<forall>c\<in>set k. isWord c)"
proof -
  from assms obtain word where w: "word \<in> set (split_ws s)" "3 < length word" "k = replace_nonword word"
    by (auto simp: extractKeywords_def)
  have "length k \<le> length word"
    using w(3) by (simp add: replace_nonword_def)
  moreover have "\<forall>c\<in>set k. isWord c"
    using w(1,3) by (auto simp: replace_nonword_def dest: split_ws_no_space)
  ultimately show ?thesis using w by blast
qed

theorem extractKeywords_long_before_stripping_witness:
  "js ''QA'' \<in> set (extractKeywords (js ''Q&A: (WIP) ---- notes'')) \<and>
   (\<exists>word\<in>set (split_ws (js ''Q&A: (WIP) ---- notes'')).
      3 < length word \<and> js ''QA'' = replace_nonword word \<and> length (js ''QA'') \<le> length word \<and>
      (\<forall>c\<in>set (js ''QA''). isWord c))"
proof -
  have h: "js ''QA'' \<in> set (extractKeywords (js ''Q&A: (WIP) ---- notes''))"
    by code_simp
  from h extractKeywords_long_before_stripping [OF h] show ?thesis by blast
qed

text \<open>
  C7: the keyword extractor is the three-step function of the specification
  (\<open>spec_keywords\<close>: tokens between whitespace runs, those of at most three characters
  discarded, punctuation deleted from the rest). A text of whitespace only, the empty one
  included, has no keywords. The keywords of two texts joined by a whitespace character
  are the keywords of the first followed by those of the second, so the order of the
  input is kept and a repeated token is repeated in the output. A single token of more
  than three characters gives exactly one keyword, itself when it holds word characters
  only: no letter is changed.
\<close>

theorem extractKeywords_refines_spec:
  "extractKeywords s = spec_keywords s \<and>
   ((\<forall>c\<in>set s. isSpace c) \<longrightarrow> extractKeywords s = []) \<and>
   (isSpace c \<longrightarrow> extractKeywords (s @ c # t) = extractKeywords s @ extractKeywords t) \<and>
   ((\<forall>c\<in>set w. \<not> isSpace c) \<and> 3 < length w \<longrightarrow> extractKeywords w = [replace_nonword w]) \<and>
   ((\<forall>c\<in>set w. isWord c) \<and> 3 < length w \<longrightarrow> extractKeywords w = [w])"
proof (intro conjI impI)
  show "extractKeywords s = spec_keywords s"
    by (rule extractKeywords_spec)
next
  assume "\<forall>c\<in>set s. isSpace c"
  then show "extractKeywords s = []"
    by (simp add: extractKeywords_spec spec_keywords_def spec_tokens_all_space)
next
  assume "isSpace c"
  then show "extractKeywords (s @ c # t) = extractKeywords s @ extractKeywords t"
    by (simp add: extractKeywords_spec spec_keywords_def spec_tokens_append)
next
  assume "(\<forall>c\<in>set w. \<not> isSpace c) \<and> 3 < length w"
  then show "extractKeywords w = [replace_nonword w]"
    by (simp add: extractKeywords_def split_ws_token)
next
  assume a: "(\<forall>c\<in>set w. isWord c) \<and> 3 < length w"
  then have "\<forall>c\<in>set w. \<not> isSpace c"
    by (blast dest: isWord_not_isSpace)
  with a show "extractKeywords w = [w]"
    by (simp add: extractKeywords_def split_ws_token replace_nonword_word)
qed

theorem extractKeywords_refines_spec_witness:
  "extractKeywords (js ''  '') = [] \<and>
   extractKeywords (js ''Sprint Notes'' @ 0x20 # js ''sprint Notes'') =
     extractKeywords (js ''Sprint Notes'') @ extractKeywords (js ''sprint Notes'') \<and>
   extractKeywords (js ''on-call'') = [js ''oncall''] \<and>
   extractKeywords (js ''Notes'') = [js ''Notes'']"
proof -
  have h1: "\<forall>c\<in>set (js ''  ''). isSpace c"
    by (simp add: js_def isSpace_def)
  have h2: "isSpace (0x20 :: jschar)"
    by (simp add: isSpace_def)
  have h3: "(\<forall>c\<in>set (js ''on-call''). \<not> isSpace c) \<and> 3 < length (js ''on-call'')"
    by (simp add: js_def isSpace_def)
  have h4: "(\<forall>c\<in>set (js ''Notes''). isWord c) \<and> 3 < length (js ''Notes'')"
    by (simp add: js_def isWord_def)
  have r: "replace_nonword (js ''on-call'') = js ''oncall''"
    by (simp add: replace_nonword_def js_def isWord_def isSpace_def)
  from h1 extractKeywords_refines_spec [of "js ''  ''"]
  have c1: "extractKeywords (js ''  '') = []" by blast
  from h2 extractKeywords_refines_spec [of "js ''Sprint Notes''" "0x20" "js ''sprint Notes''"]
  have c2: "extractKeywords (js ''Sprint Notes'' @ 0x20 # js ''sprint Notes'') =
     extractKeywords (js ''Sprint Notes'') @ extractKeywords (js ''sprint Notes'')" by blast
  from h3 extractKeywords_refines_spec [of _ _ _ "js ''on-call''"]
  have c3: "extractKeywords (js ''on-call'') = [replace_nonword (js ''on-call'')]" by blast
  from h4 extractKeywords_refines_spec [of _ _ _ "js ''Notes''"]
  have c4: "extractKeywords (js ''Notes'') = [js ''Notes'']" by blast
  from c1 c2 c3 c4 r show ?thesis by simp
qed

section \<open>Facts about the queries and the example services\<close>

lemma extractKeywords_whitespace_only:
  "\<forall>c\<in>set s. isSpace c \<Longrightarrow> extractKeywords s = []"
  by (simp add: extractKeywords_spec spec_keywords_def spec_tokens_all_space)

lemma extractKeywords_Nil: "extractKeywords [] = []"
  by (simp add: extractKeywords_def split_ws.simps [of "[]"])

lemma join_fields_literal:
  "join (js '','') [js ''metadata.labels''] = js ''metadata.labels''"
  "join (js '','') [js ''summary'', js ''labels'', js ''project''] = js ''summary,labels,project''"
  by (simp_all add: js_def)

lemma getPageById_labels:
  "getPageById api pageId (Some [js ''metadata.labels'']) w =
     (case get_content api pageId (js ''metadata.labels'') of
        Inr data \<Rightarrow> (Inr data, w\<lparr>requests := requests w @ [GET_content pageId (js ''metadata.labels'')]\<rparr>)
      | Inl error \<Rightarrow>
          Confluence_handleError error
            (w\<lparr>requests := requests w @ [GET_content pageId (js ''metadata.labels'')]\<rparr>))"
  by (simp add: getPageById_def Let_def join_fields_literal split: sum.splits)

lemma fields_param_related:
  "fields_param (Some [js ''summary'', js ''labels'', js ''project'']) = Some (js ''summary,labels,project'')"
  by (simp add: fields_param_def js_def)

lemma getIssue_related_fields:
  "getIssue api issueKey (Some [js ''summary'', js ''labels'', js ''project'']) w =
     (case get_issue api issueKey (Some (js ''summary,labels,project'')) of
        Inr data \<Rightarrow>
          (Inr data,
           w\<lparr>requests := requests w @ [GET_issue issueKey (Some (js ''summary,labels,project''))]\<rparr>)
      | Inl error \<Rightarrow>
          Jira_handleError error
            (w\<lparr>requests := requests w @ [GET_issue issueKey (Some (js ''summary,labels,project''))]\<rparr>))"
  unfolding getIssue_def fields_param_related Let_def by (simp split: sum.splits)

lemma keywords_Meeting_notes: "extractKeywords (js ''Meeting notes'') = [js ''Meeting'', js ''notes'']"
  by code_simp

lemma keywords_Test_Issue: "extractKeywords (js ''Test Issue'') = [js ''Test'', js ''Issue'']"
  by code_simp

lemma relatedQuery_oncall_page:
  \<open>relatedQuery (js ''123'') oncall_page =
     js ''type = page AND id != 123 AND (title ~ "Meeting" OR title ~ "notes") OR (labelText = "oncall")''\<close>
proof -
  have t: "ConfluencePage.title oncall_page = js ''Meeting notes''"
    and l: "metadata_labels_results oncall_page = Some [\<lparr>name = js ''oncall''\<rparr>]"
    by (simp_all add: oncall_page_def)
  show ?thesis
    unfolding relatedQuery_def t l keywords_Meeting_notes
    by (simp add: buildRelatedQuery_def js_def)
qed

lemma relatedJql_mockIssue:
  \<open>relatedJql (js ''TEST-123'') mockIssue =
     js ''(project = TEST OR (summary ~ "Test" OR summary ~ "Issue")) AND issuekey != TEST-123 ORDER BY updated DESC''\<close>
proof -
  have n: "js ''Test Issue'' \<noteq> []"
    by (simp add: js_def)
  have f: "fields_summary mockIssue = Some (js ''Test Issue'')" "fields_labels mockIssue = None"
    "fields_project_key mockIssue = js ''TEST''"
    by (simp_all add: mockIssue_def)
  show ?thesis
    unfolding relatedJql_def f option.case if_not_P [OF n] keywords_Test_Issue
    by (simp add: js_def)
qed

section \<open>Query synthesis: the claims\<close>

text \<open>
  C1 (the code departs from the claim): the expression always holds the clause that
  excludes the source, but in the document variant with keywords and labels both present
  the source satisfies it all the same. Page 123, titled \<open>Meeting notes\<close> and labelled
  \<open>oncall\<close>, gets the query below. Its clause \<open>id != 123\<close> is one operand of the
  conjunction on the left of the last \<open>OR\<close>; the label disjunct on the right of that
  \<open>OR\<close> is outside the conjunction, and page 123 carries the label it asks for. The
  issue variant closes its whole disjunction in parentheses before the exclusion.
\<close>

theorem related_pages_query_admits_source:
  \<open>get_content wiki (js ''123'') (js ''metadata.labels'') = Inr oncall_page \<and>
   ConfluencePage.id' oncall_page = js ''123'' \<and>
   metadata_labels_results oncall_page = Some [\<lparr>name = js ''oncall''\<rparr>] \<and>
   relatedQuery (js ''123'') oncall_page =
     js ''type = page AND id != 123 AND (title ~ "Meeting" OR title ~ "notes") OR (labelText = "oncall")'' \<and>
   requests (snd (getTopicallyRelatedPages wiki (js ''123'') (Some 10) (Some [js ''body.storage'']) quiet)) =
     [GET_content (js ''123'') (js ''metadata.labels''),
      GET_content_search
        (js ''type = page AND id != 123 AND (title ~ "Meeting" OR title ~ "notes") OR (labelText = "oncall")'')
        10 (js ''body.storage'')]\<close>
proof -
  have c: "get_content wiki (js ''123'') (js ''metadata.labels'') = Inr oncall_page"
    by (simp add: wiki_def)
  have s: "get_content_search wiki q 10 (js ''body.storage'') = Inr \<lparr>results = [], size' = 0\<rparr>" for q
    by (simp add: wiki_def)
  have p: "ConfluencePage.id' oncall_page = js ''123''"
    "metadata_labels_results oncall_page = Some [\<lparr>name = js ''oncall''\<rparr>]"
    by (simp_all add: oncall_page_def)
  have r: "requests (snd (getTopicallyRelatedPages wiki (js ''123'') (Some 10) (Some [js ''body.storage'']) quiet)) =
     [GET_content (js ''123'') (js ''metadata.labels''),
      GET_content_search (relatedQuery (js ''123'') oncall_page) 10 (js ''body.storage'')]"
    by (simp add: getTopicallyRelatedPages_def getPageById_labels c s quiet_def)
  from c p r show ?thesis
    by (simp add: relatedQuery_oncall_page)
qed

text \<open>
  C2: in the document variant, when the keywords and the labels are both non-empty the
  label disjunction is joined to the rest of the expression with \<open>OR\<close>; when the
  keywords are empty and the labels are not, it is joined to the base clause with
  \<open>AND\<close>. The witness is the example of the claim: keywords \<open>meeting\<close>, \<open>notes\<close>
  and label \<open>oncall\<close>, then no keyword and label \<open>oncall\<close>.
\<close>

theorem buildRelatedQuery_broaden_or_narrow:
  \<open>(kws \<noteq> [] \<and> ls \<noteq> [] \<longrightarrow>
      buildRelatedQuery pageId kws ls =
        js ''type = page AND id != '' @ pageId @
        js '' AND ('' @ join (js '' OR '') (map (\<lambda>word. js ''title ~ "'' @ word @ js ''"'') kws) @ js '')'' @
        js '' OR ('' @ join (js '' OR '') (map (\<lambda>l. js ''labelText = "'' @ name l @ js ''"'') ls) @ js '')'') \<and>
   (kws = [] \<and> ls \<noteq> [] \<longrightarrow>
      buildRelatedQuery pageId kws ls =
        js ''type = page AND id != '' @ pageId @
        js '' AND ('' @ join (js '' OR '') (map (\<lambda>l. js ''labelText = "'' @ name l @ js ''"'') ls) @ js '')'')\<close>
  by (simp add: buildRelatedQuery_def Let_def comp_def)

theorem buildRelatedQuery_broaden_or_narrow_witness:
  \<open>buildRelatedQuery (js ''123'') [js ''meeting'', js ''notes''] [\<lparr>name = js ''oncall''\<rparr>] =
     js ''type = page AND id != 123 AND (title ~ "meeting" OR title ~ "notes") OR (labelText = "oncall")'' \<and>
   buildRelatedQuery (js ''123'') [] [\<lparr>name = js ''oncall''\<rparr>] =
     js ''type = page AND id != 123 AND (labelText = "oncall")''\<close>
proof -
  have h1: "[js ''meeting'', js ''notes''] \<noteq> [] \<and> [\<lparr>name = js ''oncall''\<rparr>] \<noteq> []"
    by simp
  have h2: "([] :: jsstring list) = [] \<and> [\<lparr>name = js ''oncall''\<rparr>] \<noteq> []"
    by simp
  from h1 buildRelatedQuery_broaden_or_narrow [of "[js ''meeting'', js ''notes'']" "[\<lparr>name = js ''oncall''\<rparr>]" "js ''123''"]
  have a: \<open>buildRelatedQuery (js ''123'') [js ''meeting'', js ''notes''] [\<lparr>name = js ''oncall''\<rparr>] =
        js ''type = page AND id != '' @ js ''123'' @
        js '' AND ('' @ join (js '' OR '') (map (\<lambda>word. js ''title ~ "'' @ word @ js ''"'') [js ''meeting'', js ''notes'']) @ js '')'' @
        js '' OR ('' @ join (js '' OR '') (map (\<lambda>l. js ''labelText = "'' @ name l @ js ''"'') [\<lparr>name = js ''oncall''\<rparr>]) @ js '')''\<close>
    by blast
  from h2 buildRelatedQuery_broaden_or_narrow [of "[]" "[\<lparr>name = js ''oncall''\<rparr>]" "js ''123''"]
  have b: \<open>buildRelatedQuery (js ''123'') [] [\<lparr>name = js ''oncall''\<rparr>] =
        js ''type = page AND id != '' @ js ''123'' @
        js '' AND ('' @ join (js '' OR '') (map (\<lambda>l. js ''labelText = "'' @ name l @ js ''"'') [\<lparr>name = js ''oncall''\<rparr>]) @ js '')''\<close>
    by blast
  from a b show ?thesis by (simp add: js_def)
qed

text \<open>
  C4: the issue query is a parenthesised disjunction of the project clause \<open>P\<close>, the
  keyword disjunction \<open>K\<close> when the summary has keywords and the label disjunction
  \<open>L\<close> when the issue has labels, joined with \<open>OR\<close>; the disjunction is followed by
  \<open>AND issuekey != <key>\<close> and by \<open>ORDER BY updated DESC\<close>.
\<close>

theorem relatedJql_structure:
  \<open>(let kws = (case fields_summary issue of None \<Rightarrow> [] | Some text \<Rightarrow> extractKeywords text);
        ls = (case fields_labels issue of None \<Rightarrow> [] | Some l \<Rightarrow> l);
        P = js ''project = '' @ fields_project_key issue;
        K = js ''('' @ join (js '' OR '') (map (\<lambda>word. js ''summary ~ "'' @ word @ js ''"'') kws) @ js '')'';
        L = js ''('' @ join (js '' OR '') (map (\<lambda>label. js ''labels = "'' @ label @ js ''"'') ls) @ js '')'';
        tail = js '') AND issuekey != '' @ issueKey @ js '' ORDER BY updated DESC''
    in (kws = [] \<and> ls = [] \<longrightarrow> relatedJql issueKey issue = js ''('' @ P @ tail) \<and>
       (kws \<noteq> [] \<and> ls = [] \<longrightarrow> relatedJql issueKey issue = js ''('' @ P @ js '' OR '' @ K @ tail) \<and>
       (kws = [] \<and> ls \<noteq> [] \<longrightarrow> relatedJql issueKey issue = js ''('' @ P @ js '' OR '' @ L @ tail) \<and>
       (kws \<noteq> [] \<and> ls \<noteq> [] \<longrightarrow>
          relatedJql issueKey issue = js ''('' @ P @ js '' OR '' @ K @ js '' OR '' @ L @ tail))\<close>
  by (auto simp: relatedJql_def Let_def extractKeywords_Nil split: option.splits)

theorem relatedJql_structure_witness:
  \<open>relatedJql (js ''TEST-123'')
      \<lparr>key = js ''TEST-123'', fields_summary = Some (js ''Login page crashes''),
       fields_labels = Some [js ''auth'', js ''ui''], fields_project_key = js ''TEST'',
       fields_issuetype_name = Some (js ''Story'')\<rparr> =
    js ''(project = TEST OR (summary ~ "Login" OR summary ~ "page" OR summary ~ "crashes") OR (labels = "auth" OR labels = "ui")) AND issuekey != TEST-123 ORDER BY updated DESC'' \<and>
   relatedJql (js ''TEST-123'')
      \<lparr>key = js ''TEST-123'', fields_summary = Some (js ''Test Issue''),
       fields_labels = None, fields_project_key = js ''TEST'',
       fields_issuetype_name = Some (js ''Story'')\<rparr> =
    js ''(project = TEST OR (summary ~ "Test" OR summary ~ "Issue")) AND issuekey != TEST-123 ORDER BY updated DESC'' \<and>
   relatedJql (js ''TEST-123'')
      \<lparr>key = js ''TEST-123'', fields_summary = Some (js ''Fix it''),
       fields_labels = Some [js ''auth''], fields_project_key = js ''TEST'',
       fields_issuetype_name = None\<rparr> =
    js ''(project = TEST OR (labels = "auth")) AND issuekey != TEST-123 ORDER BY updated DESC'' \<and>
   relatedJql (js ''TEST-123'')
      \<lparr>key = js ''TEST-123'', fields_summary = None,
       fields_labels = Some [], fields_project_key = js ''TEST'',
       fields_issuetype_name = None\<rparr> =
    js ''(project = TEST) AND issuekey != TEST-123 ORDER BY updated DESC''\<close>
proof -
  let ?i1 = "\<lparr>key = js ''TEST-123'', fields_summary = Some (js ''Login page crashes''),
       fields_labels = Some [js ''auth'', js ''ui''], fields_project_key = js ''TEST'',
       fields_issuetype_name = Some (js ''Story'')\<rparr>"
  let ?i2 = "\<lparr>key = js ''TEST-123'', fields_summary = Some (js ''Test Issue''),
       fields_labels = None, fields_project_key = js ''TEST'',
       fields_issuetype_name = Some (js ''Story'')\<rparr>"
  let ?i3 = "\<lparr>key = js ''TEST-123'', fields_summary = Some (js ''Fix it''),
       fields_labels = Some [js ''auth''], fields_project_key = js ''TEST'',
       fields_issuetype_name = None\<rparr>"
  let ?i4 = "\<lparr>key = js ''TEST-123'', fields_summary = None,
       fields_labels = Some ([] :: jsstring list), fields_project_key = js ''TEST'',
       fields_issuetype_name = None\<rparr>"
  have k1: "extractKeywords (js ''Login page crashes'') = [js ''Login'', js ''page'', js ''crashes'']"
    by code_simp
  have k2: "extractKeywords (js ''Test Issue'') = [js ''Test'', js ''Issue'']"
    by code_simp
  have k3: "extractKeywords (js ''Fix it'') = []"
    by code_simp
  from relatedJql_structure [of ?i1 "js ''TEST-123''"] k1
  have c1: "relatedJql (js ''TEST-123'') ?i1 =
    js ''(project = TEST OR (summary ~ \"Login\" OR summary ~ \"page\" OR summary ~ \"crashes\") OR (labels = \"auth\" OR labels = \"ui\")) AND issuekey != TEST-123 ORDER BY updated DESC''"
    by (simp add: Let_def js_def)
  from relatedJql_structure [of ?i2 "js ''TEST-123''"] k2
  have c2: "relatedJql (js ''TEST-123'') ?i2 =
    js ''(project = TEST OR (summary ~ \"Test\" OR summary ~ \"Issue\")) AND issuekey != TEST-123 ORDER BY updated DESC''"
    by (simp add: Let_def js_def)
  from relatedJql_structure [of ?i3 "js ''TEST-123''"] k3
  have c3: "relatedJql (js ''TEST-123'') ?i3 =
    js ''(project = TEST OR (labels = \"auth\")) AND issuekey != TEST-123 ORDER BY updated DESC''"
    by (simp add: Let_def js_def)
  from relatedJql_structure [of ?i4 "js ''TEST-123''"]
  have c4: "relatedJql (js ''TEST-123'') ?i4 =
    js ''(project = TEST) AND issuekey != TEST-123 ORDER BY updated DESC''"
    by (simp add: Let_def js_def)
  from c1 c2 c3 c4 show ?thesis by blast
qed

text \<open>
  C5: a source page whose title yields no keyword (an empty title or one of whitespace
  only, among others) and that has no label gets exactly the base clause
  \<open>type = page AND id != <identifier>\<close> as its query.
\<close>

theorem relatedQuery_empty_signal:
  "(extractKeywords (ConfluencePage.title sourcePage) = [] \<and>
    (metadata_labels_results sourcePage = None \<or> metadata_labels_results sourcePage = Some []) \<longrightarrow>
      relatedQuery pageId sourcePage = js ''type = page AND id != '' @ pageId) \<and>
   ((\<forall>c\<in>set (ConfluencePage.title sourcePage). isSpace c) \<and>
    (metadata_labels_results sourcePage = None \<or> metadata_labels_results sourcePage = Some []) \<longrightarrow>
      relatedQuery pageId sourcePage = js ''type = page AND id != '' @ pageId)"
  by (auto simp: relatedQuery_def buildRelatedQuery_def extractKeywords_whitespace_only)

theorem relatedQuery_empty_signal_witness:
  "relatedQuery (js ''123'')
     \<lparr>id' = js ''123'', status = js ''current'', title = js '''', body_storage_value = None,
      metadata_labels_results = None\<rparr> = js ''type = page AND id != 123'' \<and>
   relatedQuery (js ''123'')
     \<lparr>id' = js ''123'', status = js ''current'', title = js ''  '', body_storage_value = None,
      metadata_labels_results = Some []\<rparr> = js ''type = page AND id != 123''"
proof -
  let ?p1 = "\<lparr>id' = js ''123'', status = js ''current'', title = js '''', body_storage_value = None,
      metadata_labels_results = None\<rparr>"
  let ?p2 = "\<lparr>id' = js ''123'', status = js ''current'', title = js ''  '', body_storage_value = None,
      metadata_labels_results = Some ([] :: ConfluenceLabel list)\<rparr>"
  have k: "extractKeywords (ConfluencePage.title ?p1) = []"
    by code_simp
  have s: "\<forall>c\<in>set (ConfluencePage.title ?p2). isSpace c"
    by (simp add: js_def isSpace_def)
  from k relatedQuery_empty_signal [of ?p1 "js ''123''"]
  have "relatedQuery (js ''123'') ?p1 = js ''type = page AND id != '' @ js ''123''" by simp
  moreover from s relatedQuery_empty_signal [of ?p2 "js ''123''"]
  have "relatedQuery (js ''123'') ?p2 = js ''type = page AND id != '' @ js ''123''" by simp
  ultimately show ?thesis by (simp add: js_def)
qed

section \<open>The operations: the claims\<close>

text \<open>
  C6, as stated: both variants take the limit from the caller and request at most that
  many results. \<open>getRelatedIssues\<close> takes the issue key and nothing else: whatever
  number of results its caller wants, it asks the search endpoint for 10 starting at 0, and
  here it returns the three issues that the endpoint found.
\<close>

theorem getRelatedIssues_fixed_page_counterexample:
  \<open>requests (snd (getRelatedIssues tracker (js ''TEST-123'') quiet)) =
     [GET_issue (js ''TEST-123'') (Some (js ''summary,labels,project'')),
      GET_search
        (js ''(project = TEST OR (summary ~ "Test" OR summary ~ "Issue")) AND issuekey != TEST-123 ORDER BY updated DESC'')
        0 10 None] \<and>
   fst (getRelatedIssues tracker (js ''TEST-123'') quiet) = Inr other_issues \<and>
   length other_issues = 3\<close>
proof -
  have i: "get_issue tracker (js ''TEST-123'') (Some (js ''summary,labels,project'')) = Inr mockIssue"
    by (simp add: tracker_def)
  have s: "get_search tracker q 0 10 None = Inr \<lparr>issues = other_issues\<rparr>" for q
    by (simp add: tracker_def)
  show ?thesis
    by (simp add: getRelatedIssues_def getIssue_related_fields i searchIssues_def fields_param_def s
        relatedJql_mockIssue quiet_def other_issues_def)
qed

text \<open>
  C6, amended: \<open>getTopicallyRelatedPages\<close> called with limit \<open>N\<close> and expand fields
  \<open>ex\<close> sends, after the fetch of the source page and only if that succeeds, one search
  request that carries \<open>N\<close> as its limit and \<open>ex\<close> joined by commas, and what it returns
  is the answer of the search endpoint as it came. \<open>getRelatedIssues\<close> has no limit and
  no expand parameter: its one search request asks for 10 results starting at 0, and it
  returns the issues of the endpoint's answer as they came.
\<close>

theorem related_search_limit:
  "requests (snd (getTopicallyRelatedPages api pageId (Some N) (Some ex) w)) =
     requests w @ GET_content pageId (js ''metadata.labels'') #
       (case get_content api pageId (js ''metadata.labels'') of
          Inl e \<Rightarrow> []
        | Inr page \<Rightarrow> [GET_content_search (relatedQuery pageId page) N (join (js '','') ex)]) \<and>
   (\<forall>r. fst (getTopicallyRelatedPages api pageId (Some N) (Some ex) w) = Inr r \<longrightarrow>
      (\<exists>page. get_content api pageId (js ''metadata.labels'') = Inr page \<and>
         get_content_search api (relatedQuery pageId page) N (join (js '','') ex) = Inr r)) \<and>
   requests (snd (getRelatedIssues tr issueKey w)) =
     requests w @ GET_issue issueKey (Some (js ''summary,labels,project'')) #
       (case get_issue tr issueKey (Some (js ''summary,labels,project'')) of
          Inl e \<Rightarrow> []
        | Inr issue \<Rightarrow> [GET_search (relatedJql issueKey issue) 0 10 None]) \<and>
   (\<forall>r. fst (getRelatedIssues tr issueKey w) = Inr r \<longrightarrow>
      (\<exists>issue found. get_issue tr issueKey (Some (js ''summary,labels,project'')) = Inr issue \<and>
         get_search tr (relatedJql issueKey issue) 0 10 None = Inr found \<and> r = issues found))"
proof (intro conjI allI impI)
  show "requests (snd (getTopicallyRelatedPages api pageId (Some N) (Some ex) w)) =
     requests w @ GET_content pageId (js ''metadata.labels'') #
       (case get_content api pageId (js ''metadata.labels'') of
          Inl e \<Rightarrow> []
        | Inr page \<Rightarrow> [GET_content_search (relatedQuery pageId page) N (join (js '','') ex)])"
    by (simp add: getTopicallyRelatedPages_def getPageById_labels Confluence_handleError_def Let_def
        split: sum.splits)
next
  fix r
  assume "fst (getTopicallyRelatedPages api pageId (Some N) (Some ex) w) = Inr r"
  then show "\<exists>page. get_content api pageId (js ''metadata.labels'') = Inr page \<and>
         get_content_search api (relatedQuery pageId page) N (join (js '','') ex) = Inr r"
    by (simp add: getTopicallyRelatedPages_def getPageById_labels Confluence_handleError_def Let_def
        split: sum.splits)
next
  show "requests (snd (getRelatedIssues tr issueKey w)) =
     requests w @ GET_issue issueKey (Some (js ''summary,labels,project'')) #
       (case get_issue tr issueKey (Some (js ''summary,labels,project'')) of
          Inl e \<Rightarrow> []
        | Inr issue \<Rightarrow> [GET_search (relatedJql issueKey issue) 0 10 None])"
    by (simp add: getRelatedIssues_def getIssue_related_fields searchIssues_def fields_param_def
        Jira_handleError_def Let_def split: sum.splits)
next
  fix r
  assume "fst (getRelatedIssues tr issueKey w) = Inr r"
  then show "\<exists>issue found. get_issue tr issueKey (Some (js ''summary,labels,project'')) = Inr issue \<and>
         get_search tr (relatedJql issueKey issue) 0 10 None = Inr found \<and> r = issues found"
    by (simp add: getRelatedIssues_def getIssue_related_fields searchIssues_def fields_param_def
        Jira_handleError_def Let_def split: sum.splits)
qed

theorem related_search_limit_witness:
  \<open>requests (snd (getTopicallyRelatedPages wiki (js ''123'') (Some 3) (Some [js ''body.view'', js ''version'']) quiet)) =
     [GET_content (js ''123'') (js ''metadata.labels''),
      GET_content_search
        (js ''type = page AND id != 123 AND (title ~ "Meeting" OR title ~ "notes") OR (labelText = "oncall")'')
        3 (js ''body.view,version'')] \<and>
   fst (getTopicallyRelatedPages wiki (js ''123'') (Some 3) (Some [js ''body.view'', js ''version'']) quiet) =
     Inr \<lparr>results = [], size' = 0\<rparr> \<and>
   (\<exists>page. get_content wiki (js ''123'') (js ''metadata.labels'') = Inr page \<and>
      get_content_search wiki (relatedQuery (js ''123'') page) 3 (js ''body.view,version'') =
        Inr \<lparr>results = [], size' = 0\<rparr>) \<and>
   requests (snd (getRelatedIssues tracker (js ''TEST-123'') quiet)) =
     [GET_issue (js ''TEST-123'') (Some (js ''summary,labels,project'')),
      GET_search
        (js ''(project = TEST OR (summary ~ "Test" OR summary ~ "Issue")) AND issuekey != TEST-123 ORDER BY updated DESC'')
        0 10 None] \<and>
   fst (getRelatedIssues tracker (js ''TEST-123'') quiet) = Inr other_issues \<and>
   (\<exists>issue found. get_issue tracker (js ''TEST-123'') (Some (js ''summary,labels,project'')) = Inr issue \<and>
      get_search tracker (relatedJql (js ''TEST-123'') issue) 0 10 None = Inr found \<and>
      other_issues = issues found)\<close>
proof -
  have c: "get_content wiki (js ''123'') (js ''metadata.labels'') = Inr oncall_page"
    by (simp add: wiki_def)
  have cs: "get_content_search wiki q n x = Inr \<lparr>results = [], size' = 0\<rparr>" for q n x
    by (simp add: wiki_def)
  have i: "get_issue tracker (js ''TEST-123'') (Some (js ''summary,labels,project'')) = Inr mockIssue"
    by (simp add: tracker_def)
  have gs: "get_search tracker q 0 10 None = Inr \<lparr>issues = other_issues\<rparr>" for q
    by (simp add: tracker_def)
  have j: "join (js '','') [js ''body.view'', js ''version''] = js ''body.view,version''"
    by (simp add: js_def)
  have h1: "fst (getTopicallyRelatedPages wiki (js ''123'') (Some 3) (Some [js ''body.view'', js ''version'']) quiet) =
     Inr \<lparr>results = [], size' = 0\<rparr>"
    by (simp add: getTopicallyRelatedPages_def getPageById_labels c cs)
  have h2: "fst (getRelatedIssues tracker (js ''TEST-123'') quiet) = Inr other_issues"
    by (simp add: getRelatedIssues_def getIssue_related_fields i searchIssues_def fields_param_def gs)
  note t = related_search_limit
    [of wiki "js ''123''" 3 "[js ''body.view'', js ''version'']" quiet tracker "js ''TEST-123''",
      unfolded j]
  from t h1 have e1: "\<exists>page. get_content wiki (js ''123'') (js ''metadata.labels'') = Inr page \<and>
      get_content_search wiki (relatedQuery (js ''123'') page) 3 (js ''body.view,version'') =
        Inr \<lparr>results = [], size' = 0\<rparr>"
    by blast
  from t h2 have e2: "\<exists>issue found. get_issue tracker (js ''TEST-123'') (Some (js ''summary,labels,project'')) = Inr issue \<and>
      get_search tracker (relatedJql (js ''TEST-123'') issue) 0 10 None = Inr found \<and>
      other_issues = issues found"
    by blast
  from t have r1: "requests (snd (getTopicallyRelatedPages wiki (js ''123'') (Some 3) (Some [js ''body.view'', js ''version'']) quiet)) =
     [GET_content (js ''123'') (js ''metadata.labels''),
      GET_content_search (relatedQuery (js ''123'') oncall_page) 3 (js ''body.view,version'')]"
    and r2: "requests (snd (getRelatedIssues tracker (js ''TEST-123'') quiet)) =
     [GET_issue (js ''TEST-123'') (Some (js ''summary,labels,project'')),
      GET_search (relatedJql (js ''TEST-123'') mockIssue) 0 10 None]"
    unfolding c i sum.case by (simp_all add: quiet_def)
  from r1 r2 h1 h2 e1 e2 show ?thesis
    unfolding relatedQuery_oncall_page relatedJql_mockIssue by blast
qed

text \<open>
  C8, as stated: when the fetch of the source item fails, the operation raises an error
  classified by cause, the not-found error for status 404. \<open>getRelatedIssues\<close> for an
  issue that does not exist throws the error of the HTTP client as it received it, with
  the message \<open>Request failed with status code 404\<close>; the not-found error is the one
  that the tool throws after it caught that error.
\<close>

theorem related_issues_raw_error_counterexample:
  "fst (getRelatedIssues tracker (js ''TEST-1'') quiet) = Inl not_found \<and>
   response not_found = Some \<lparr>status = 404, statusText = js ''Not Found''\<rparr> \<and>
   message not_found = js ''Request failed with status code 404'' \<and>
   fst (getRelatedIssues_execute (Some tracker) (js ''TEST-1'') quiet) =
     Inl (UserError (js ''Not Found Error: The requested Confluence resource could not be found. Please check the provided ID or parameters.''))"
proof -
  have n: "js ''TEST-1'' \<noteq> js ''TEST-123''"
    by (simp add: js_def)
  have h: "get_issue tracker (js ''TEST-1'') (Some (js ''summary,labels,project'')) = Inl not_found"
    using n by (simp add: tracker_def)
  have r: "response not_found = Some \<lparr>status = 404, statusText = js ''Not Found''\<rparr>"
    "message not_found = js ''Request failed with status code 404''"
    by (simp_all add: not_found_def)
  have c: "fst (getRelatedIssues tracker (js ''TEST-1'') quiet) = Inl not_found"
    by (simp add: getRelatedIssues_def getIssue_related_fields h Jira_handleError_def)
  have t: "fst (getRelatedIssues_execute (Some tracker) (js ''TEST-1'') quiet) =
     Inl (UserError (js ''Not Found Error: The requested Confluence resource could not be found. Please check the provided ID or parameters.''))"
    by (simp add: getRelatedIssues_execute_def getRelatedIssues_def getIssue_related_fields h
        Jira_handleError_def index_handleError_def r)
  from c r t show ?thesis by simp
qed

text \<open>
  C8, amended: when the fetch of the source item fails, the operation throws the error of
  the fetch, unchanged, and the fetch is the only request it has sent, so the search
  endpoint is not called; when the fetch succeeds and the search fails, the operation
  throws the error of the search, unchanged, after these two requests. Either way it
  returns nothing. The tool that called the operation throws, for that error, the
  \<open>UserError\<close> classified by cause: authentication for 401, permission for 403, not
  found for 404, status and status text for any other status, the transport message when
  there was no response. \<open>given\<close> is the limit the operation searches with, \<open>asked\<close>
  the one the tool passes to it.
\<close>

theorem related_failure_rethrown_then_classified:
  "(let classified = (\<lambda>e. UserError
         (case response e of
            None \<Rightarrow> js ''An unexpected error occurred: '' @ message e
          | Some r \<Rightarrow>
              if http_response.status r = 401
              then js ''Authentication Error: Failed to authenticate with Confluence. Please check your credentials.''
              else if http_response.status r = 403
              then js ''Permission Error: You do not have permission to access this resource in Confluence.''
              else if http_response.status r = 404
              then js ''Not Found Error: The requested Confluence resource could not be found. Please check the provided ID or parameters.''
              else js ''Confluence API Error: '' @ number_toString (http_response.status r) @ js '' '' @
                   statusText r));
        fetchPage = GET_content pageId (js ''metadata.labels'');
        fetchIssue = GET_issue issueKey (Some (js ''summary,labels,project''));
        given = (case limit of None \<Rightarrow> 10 | Some n \<Rightarrow> n);
        expanded = join (js '','') (case expand of None \<Rightarrow> [js ''body.storage''] | Some ex \<Rightarrow> ex);
        asked = (case toolLimit of None \<Rightarrow> 10 | Some n \<Rightarrow> if n = 0 then 10 else n)
    in (get_content api pageId (js ''metadata.labels'') = Inl e \<longrightarrow>
          fst (getTopicallyRelatedPages api pageId limit expand w) = Inl e \<and>
          requests (snd (getTopicallyRelatedPages api pageId limit expand w)) = requests w @ [fetchPage] \<and>
          fst (getRelatedPages_execute (Some api) pageId toolLimit w) = Inl (classified e) \<and>
          requests (snd (getRelatedPages_execute (Some api) pageId toolLimit w)) = requests w @ [fetchPage]) \<and>
       (get_content api pageId (js ''metadata.labels'') = Inr page \<and>
        get_content_search api (relatedQuery pageId page) given expanded = Inl e \<longrightarrow>
          fst (getTopicallyRelatedPages api pageId limit expand w) = Inl e \<and>
          requests (snd (getTopicallyRelatedPages api pageId limit expand w)) =
            requests w @ [fetchPage, GET_content_search (relatedQuery pageId page) given expanded]) \<and>
       (get_content api pageId (js ''metadata.labels'') = Inr page \<and>
        get_content_search api (relatedQuery pageId page) asked (js ''body.storage'') = Inl e \<longrightarrow>
          fst (getRelatedPages_execute (Some api) pageId toolLimit w) = Inl (classified e) \<and>
          requests (snd (getRelatedPages_execute (Some api) pageId toolLimit w)) =
            requests w @ [fetchPage, GET_content_search (relatedQuery pageId page) asked (js ''body.storage'')]) \<and>
       (get_issue tr issueKey (Some (js ''summary,labels,project'')) = Inl e \<longrightarrow>
          fst (getRelatedIssues tr issueKey w) = Inl e \<and>
          requests (snd (getRelatedIssues tr issueKey w)) = requests w @ [fetchIssue] \<and>
          fst (getRelatedIssues_execute (Some tr) issueKey w) = Inl (classified e) \<and>
          requests (snd (getRelatedIssues_execute (Some tr) issueKey w)) = requests w @ [fetchIssue]) \<and>
       (get_issue tr issueKey (Some (js ''summary,labels,project'')) = Inr issue \<and>
        get_search tr (relatedJql issueKey issue) 0 10 None = Inl e \<longrightarrow>
          fst (getRelatedIssues tr issueKey w) = Inl e \<and>
          requests (snd (getRelatedIssues tr issueKey w)) =
            requests w @ [fetchIssue, GET_search (relatedJql issueKey issue) 0 10 None] \<and>
          fst (getRelatedIssues_execute (Some tr) issueKey w) = Inl (classified e) \<and>
          requests (snd (getRelatedIssues_execute (Some tr) issueKey w)) =
            requests w @ [fetchIssue, GET_search (relatedJql issueKey issue) 0 10 None]))"
proof -
  have cl: "index_handleError (AxiosError e) = UserError
         (case response e of
            None \<Rightarrow> js ''An unexpected error occurred: '' @ message e
          | Some r \<Rightarrow>
              if http_response.status r = 401
              then js ''Authentication Error: Failed to authenticate with Confluence. Please check your credentials.''
              else if http_response.status r = 403
              then js ''Permission Error: You do not have permission to access this resource in Confluence.''
              else if http_response.status r = 404
              then js ''Not Found Error: The requested Confluence resource could not be found. Please check the provided ID or parameters.''
              else js ''Confluence API Error: '' @ number_toString (http_response.status r) @ js '' '' @
                   statusText r)"
    by (simp add: index_handleError_def split: option.splits)
  have pf: "get_content api pageId (js ''metadata.labels'') = Inl e \<Longrightarrow>
      getTopicallyRelatedPages api pageId l x w =
        (Inl e, snd (Confluence_handleError e (snd (Confluence_handleError e
           (w\<lparr>requests := requests w @ [GET_content pageId (js ''metadata.labels'')]\<rparr>)
             :: (axios_error + ConfluencePage) \<times> world)) :: (axios_error + ConfluencePage) \<times> world))" for l x
    by (simp add: getTopicallyRelatedPages_def getPageById_labels Confluence_handleError_def)
  have ps: "get_content api pageId (js ''metadata.labels'') = Inr page \<Longrightarrow>
      get_content_search api (relatedQuery pageId page) (case l of None \<Rightarrow> 10 | Some n \<Rightarrow> n)
        (join (js '','') (case x of None \<Rightarrow> [js ''body.storage''] | Some ex \<Rightarrow> ex)) = Inl e \<Longrightarrow>
      fst (getTopicallyRelatedPages api pageId l x w) = Inl e \<and>
      requests (snd (getTopicallyRelatedPages api pageId l x w)) =
        requests w @ [GET_content pageId (js ''metadata.labels''),
          GET_content_search (relatedQuery pageId page) (case l of None \<Rightarrow> 10 | Some n \<Rightarrow> n)
            (join (js '','') (case x of None \<Rightarrow> [js ''body.storage''] | Some ex \<Rightarrow> ex))]" for l x
    by (simp add: getTopicallyRelatedPages_def getPageById_labels Confluence_handleError_def Let_def)
  have jf: "get_issue tr issueKey (Some (js ''summary,labels,project'')) = Inl e \<Longrightarrow>
      fst (getRelatedIssues tr issueKey w) = Inl e \<and>
      requests (snd (getRelatedIssues tr issueKey w)) =
        requests w @ [GET_issue issueKey (Some (js ''summary,labels,project''))]"
    by (simp add: getRelatedIssues_def getIssue_related_fields Jira_handleError_def)
  have jsf: "get_issue tr issueKey (Some (js ''summary,labels,project'')) = Inr issue \<Longrightarrow>
      get_search tr (relatedJql issueKey issue) 0 10 None = Inl e \<Longrightarrow>
      fst (getRelatedIssues tr issueKey w) = Inl e \<and>
      requests (snd (getRelatedIssues tr issueKey w)) =
        requests w @ [GET_issue issueKey (Some (js ''summary,labels,project'')),
          GET_search (relatedJql issueKey issue) 0 10 None]"
    by (simp add: getRelatedIssues_def getIssue_related_fields searchIssues_def fields_param_def
        Jira_handleError_def Let_def)
  have ex_doc: "fst (getTopicallyRelatedPages api pageId (Some a) (Some [js ''body.storage'']) w) = Inl e \<Longrightarrow>
      fst (getRelatedPages_execute (Some api) pageId toolLimit w) = Inl (index_handleError (AxiosError e)) \<and>
      requests (snd (getRelatedPages_execute (Some api) pageId toolLimit w)) =
        requests (snd (getTopicallyRelatedPages api pageId (Some a) (Some [js ''body.storage'']) w))"
    if "a = (case toolLimit of None \<Rightarrow> 10 | Some n \<Rightarrow> if n = 0 then 10 else n)" for a
    using that by (auto simp: getRelatedPages_execute_def split: prod.splits sum.splits)
  have ex_jira: "fst (getRelatedIssues tr issueKey w) = Inl e \<Longrightarrow>
      fst (getRelatedIssues_execute (Some tr) issueKey w) = Inl (index_handleError (AxiosError e)) \<and>
      requests (snd (getRelatedIssues_execute (Some tr) issueKey w)) =
        requests (snd (getRelatedIssues tr issueKey w))"
    by (auto simp: getRelatedIssues_execute_def split: prod.splits sum.splits)
  show ?thesis
    unfolding Let_def cl [symmetric]
  proof (intro conjI impI)
    assume a: "get_content api pageId (js ''metadata.labels'') = Inl e"
    show "fst (getTopicallyRelatedPages api pageId limit expand w) = Inl e"
      using pf [OF a] by simp
    show "requests (snd (getTopicallyRelatedPages api pageId limit expand w)) =
        requests w @ [GET_content pageId (js ''metadata.labels'')]"
      using pf [OF a] by (simp add: Confluence_handleError_def)
    have f: "fst (getTopicallyRelatedPages api pageId
        (Some (case toolLimit of None \<Rightarrow> 10 | Some n \<Rightarrow> if n = 0 then 10 else n))
        (Some [js ''body.storage'']) w) = Inl e"
      using pf [OF a] by simp
    show "fst (getRelatedPages_execute (Some api) pageId toolLimit w) = Inl (index_handleError (AxiosError e))"
      using ex_doc [OF refl f] by simp
    show "requests (snd (getRelatedPages_execute (Some api) pageId toolLimit w)) =
        requests w @ [GET_content pageId (js ''metadata.labels'')]"
      using ex_doc [OF refl f] pf [OF a] by (simp add: Confluence_handleError_def)
  next
    assume a: "get_content api pageId (js ''metadata.labels'') = Inr page \<and>
        get_content_search api (relatedQuery pageId page) (case limit of None \<Rightarrow> 10 | Some n \<Rightarrow> n)
          (join (js '','') (case expand of None \<Rightarrow> [js ''body.storage''] | Some ex \<Rightarrow> ex)) = Inl e"
    from ps [of limit expand] a
    show "fst (getTopicallyRelatedPages api pageId limit expand w) = Inl e"
      and "requests (snd (getTopicallyRelatedPages api pageId limit expand w)) =
        requests w @ [GET_content pageId (js ''metadata.labels''),
          GET_content_search (relatedQuery pageId page) (case limit of None \<Rightarrow> 10 | Some n \<Rightarrow> n)
            (join (js '','') (case expand of None \<Rightarrow> [js ''body.storage''] | Some ex \<Rightarrow> ex))]"
      by blast+
  next
    let ?a = "case toolLimit of None \<Rightarrow> 10 | Some n \<Rightarrow> if n = 0 then 10 else n"
    assume a: "get_content api pageId (js ''metadata.labels'') = Inr page \<and>
        get_content_search api (relatedQuery pageId page) ?a (js ''body.storage'') = Inl e"
    from ps [of "Some ?a" "Some [js ''body.storage'']"] a
    have f: "fst (getTopicallyRelatedPages api pageId (Some ?a) (Some [js ''body.storage'']) w) = Inl e"
      and r: "requests (snd (getTopicallyRelatedPages api pageId (Some ?a) (Some [js ''body.storage'']) w)) =
        requests w @ [GET_content pageId (js ''metadata.labels''),
          GET_content_search (relatedQuery pageId page) ?a (js ''body.storage'')]"
      by simp_all
    show "fst (getRelatedPages_execute (Some api) pageId toolLimit w) = Inl (index_handleError (AxiosError e))"
      using ex_doc [OF refl f] by simp
    show "requests (snd (getRelatedPages_execute (Some api) pageId toolLimit w)) =
        requests w @ [GET_content pageId (js ''metadata.labels''),
          GET_content_search (relatedQuery pageId page) ?a (js ''body.storage'')]"
      using ex_doc [OF refl f] r by simp
  next
    assume a: "get_issue tr issueKey (Some (js ''summary,labels,project'')) = Inl e"
    from jf [OF a]
    show "fst (getRelatedIssues tr issueKey w) = Inl e"
      and "requests (snd (getRelatedIssues tr issueKey w)) =
        requests w @ [GET_issue issueKey (Some (js ''summary,labels,project''))]"
      by blast+
    from jf [OF a] have f: "fst (getRelatedIssues tr issueKey w) = Inl e" by blast
    show "fst (getRelatedIssues_execute (Some tr) issueKey w) = Inl (index_handleError (AxiosError e))"
      using ex_jira [OF f] by simp
    show "requests (snd (getRelatedIssues_execute (Some tr) issueKey w)) =
        requests w @ [GET_issue issueKey (Some (js ''summary,labels,project''))]"
      using ex_jira [OF f] jf [OF a] by simp
  next
    assume a: "get_issue tr issueKey (Some (js ''summary,labels,project'')) = Inr issue \<and>
        get_search tr (relatedJql issueKey issue) 0 10 None = Inl e"
    then have a1: "get_issue tr issueKey (Some (js ''summary,labels,project'')) = Inr issue"
      and a2: "get_search tr (relatedJql issueKey issue) 0 10 None = Inl e"
      by blast+
    from jsf [OF a1 a2]
    show "fst (getRelatedIssues tr issueKey w) = Inl e"
      and "requests (snd (getRelatedIssues tr issueKey w)) =
        requests w @ [GET_issue issueKey (Some (js ''summary,labels,project'')),
          GET_search (relatedJql issueKey issue) 0 10 None]"
      by blast+
    from jsf [OF a1 a2] have f: "fst (getRelatedIssues tr issueKey w) = Inl e" by blast
    show "fst (getRelatedIssues_execute (Some tr) issueKey w) = Inl (index_handleError (AxiosError e))"
      using ex_jira [OF f] by simp
    show "requests (snd (getRelatedIssues_execute (Some tr) issueKey w)) =
        requests w @ [GET_issue issueKey (Some (js ''summary,labels,project'')),
          GET_search (relatedJql issueKey issue) 0 10 None]"
      using ex_jira [OF f] jsf [OF a1 a2] by simp
  qed
qed

theorem related_failure_rethrown_then_classified_witness:
  \<open>fst (getTopicallyRelatedPages wiki (js ''9'') (Some 5) None quiet) = Inl not_found \<and>
   requests (snd (getTopicallyRelatedPages wiki (js ''9'') (Some 5) None quiet)) =
     [GET_content (js ''9'') (js ''metadata.labels'')] \<and>
   fst (getRelatedPages_execute (Some wiki) (js ''9'') (Some 5) quiet) =
     Inl (UserError (js ''Not Found Error: The requested Confluence resource could not be found. Please check the provided ID or parameters.'')) \<and>
   fst (getRelatedPages_execute
          (Some (wiki\<lparr>get_content := \<lambda>pageId expand.
             Inl \<lparr>response = Some \<lparr>status = 401, statusText = js ''Unauthorized''\<rparr>,
                  message = js ''Request failed with status code 401''\<rparr>\<rparr>))
          (js ''123'') None quiet) =
     Inl (UserError (js ''Authentication Error: Failed to authenticate with Confluence. Please check your credentials.'')) \<and>
   fst (getTopicallyRelatedPages (wiki\<lparr>get_content_search := \<lambda>cql limit expand. Inl unreachable\<rparr>)
          (js ''123'') (Some 5) None quiet) = Inl unreachable \<and>
   requests (snd (getTopicallyRelatedPages (wiki\<lparr>get_content_search := \<lambda>cql limit expand. Inl unreachable\<rparr>)
          (js ''123'') (Some 5) None quiet)) =
     [GET_content (js ''123'') (js ''metadata.labels''),
      GET_content_search
        (js ''type = page AND id != 123 AND (title ~ "Meeting" OR title ~ "notes") OR (labelText = "oncall")'')
        5 (js ''body.storage'')] \<and>
   fst (getRelatedPages_execute (Some (wiki\<lparr>get_content_search := \<lambda>cql limit expand. Inl unreachable\<rparr>))
          (js ''123'') (Some 0) quiet) =
     Inl (UserError (js ''An unexpected error occurred: connect ECONNREFUSED'')) \<and>
   fst (getRelatedIssues
          (tracker\<lparr>get_issue := \<lambda>issueKey fields'.
             Inl \<lparr>response = Some \<lparr>status = 403, statusText = js ''Forbidden''\<rparr>,
                  message = js ''Request failed with status code 403''\<rparr>\<rparr>)
          (js ''TEST-123'') quiet) =
     Inl \<lparr>response = Some \<lparr>status = 403, statusText = js ''Forbidden''\<rparr>,
          message = js ''Request failed with status code 403''\<rparr> \<and>
   fst (getRelatedIssues_execute
          (Some (tracker\<lparr>get_issue := \<lambda>issueKey fields'.
             Inl \<lparr>response = Some \<lparr>status = 403, statusText = js ''Forbidden''\<rparr>,
                  message = js ''Request failed with status code 403''\<rparr>\<rparr>))
          (js ''TEST-123'') quiet) =
     Inl (UserError (js ''Permission Error: You do not have permission to access this resource in Confluence.'')) \<and>
   requests (snd (getRelatedIssues
          (tracker\<lparr>get_search := \<lambda>jql startAt maxResults fields'.
             Inl \<lparr>response = Some \<lparr>status = 500, statusText = js ''Internal Server Error''\<rparr>,
                  message = js ''Request failed with status code 500''\<rparr>\<rparr>)
          (js ''TEST-123'') quiet)) =
     [GET_issue (js ''TEST-123'') (Some (js ''summary,labels,project'')),
      GET_search
        (js ''(project = TEST OR (summary ~ "Test" OR summary ~ "Issue")) AND issuekey != TEST-123 ORDER BY updated DESC'')
        0 10 None] \<and>
   fst (getRelatedIssues_execute
          (Some (tracker\<lparr>get_search := \<lambda>jql startAt maxResults fields'.
             Inl \<lparr>response = Some \<lparr>status = 500, statusText = js ''Internal Server Error''\<rparr>,
                  message = js ''Request failed with status code 500''\<rparr>\<rparr>))
          (js ''TEST-123'') quiet) =
     Inl (UserError (js ''Confluence API Error: 500 Internal Server Error''))\<close>
proof -
  let ?e401 = "\<lparr>response = Some \<lparr>status = 401, statusText = js ''Unauthorized''\<rparr>,
                  message = js ''Request failed with status code 401''\<rparr>"
  let ?e403 = "\<lparr>response = Some \<lparr>status = 403, statusText = js ''Forbidden''\<rparr>,
                  message = js ''Request failed with status code 403''\<rparr>"
  let ?e500 = "\<lparr>response = Some \<lparr>status = 500, statusText = js ''Internal Server Error''\<rparr>,
                  message = js ''Request failed with status code 500''\<rparr>"
  let ?wiki401 = "wiki\<lparr>get_content := \<lambda>pageId expand. Inl ?e401\<rparr>"
  let ?wikiDown = "wiki\<lparr>get_content_search := \<lambda>cql limit expand. Inl unreachable\<rparr>"
  let ?tracker403 = "tracker\<lparr>get_issue := \<lambda>issueKey fields'. Inl ?e403\<rparr>"
  let ?tracker500 = "tracker\<lparr>get_search := \<lambda>jql startAt maxResults fields'. Inl ?e500\<rparr>"
  have n: "js ''9'' \<noteq> js ''123''"
    by (simp add: js_def)
  have h404: "get_content wiki (js ''9'') (js ''metadata.labels'') = Inl not_found"
    using n by (simp add: wiki_def)
  have h401: "get_content ?wiki401 (js ''123'') (js ''metadata.labels'') = Inl ?e401"
    by simp
  have hdown: "get_content ?wikiDown (js ''123'') (js ''metadata.labels'') = Inr oncall_page \<and>
      get_content_search ?wikiDown (relatedQuery (js ''123'') oncall_page) 5 (js ''body.storage'') =
        Inl unreachable"
    by (simp add: wiki_def)
  have hdown0: "get_content ?wikiDown (js ''123'') (js ''metadata.labels'') = Inr oncall_page \<and>
      get_content_search ?wikiDown (relatedQuery (js ''123'') oncall_page) 10 (js ''body.storage'') =
        Inl unreachable"
    by (simp add: wiki_def)
  have h403: "get_issue ?tracker403 (js ''TEST-123'') (Some (js ''summary,labels,project'')) = Inl ?e403"
    by simp
  have h500: "get_issue ?tracker500 (js ''TEST-123'') (Some (js ''summary,labels,project'')) = Inr mockIssue \<and>
      get_search ?tracker500 (relatedJql (js ''TEST-123'') mockIssue) 0 10 None = Inl ?e500"
    by (simp add: tracker_def)
  have r404: "response not_found = Some \<lparr>status = 404, statusText = js ''Not Found''\<rparr>"
    by (simp add: not_found_def)
  have rnone: "response unreachable = None" "message unreachable = js ''connect ECONNREFUSED''"
    by (simp_all add: unreachable_def)
  have n500: "number_toString 500 = js ''500''"
    by (simp add: number_toString.simps js_def)
  note t404 = related_failure_rethrown_then_classified
    [where api = wiki and pageId = "js ''9''" and e = not_found and limit = "Some 5"
      and expand = None and toolLimit = "Some 5" and w = quiet and page = oncall_page
      and tr = tracker and issueKey = "js ''TEST-1''" and issue = mockIssue, unfolded Let_def]
  note t401 = related_failure_rethrown_then_classified
    [where api = ?wiki401 and pageId = "js ''123''" and e = ?e401 and limit = None
      and expand = None and toolLimit = None and w = quiet and page = oncall_page
      and tr = tracker and issueKey = "js ''TEST-1''" and issue = mockIssue, unfolded Let_def]
  note tdown = related_failure_rethrown_then_classified
    [where api = ?wikiDown and pageId = "js ''123''" and e = unreachable and limit = "Some 5"
      and expand = None and page = oncall_page and toolLimit = "Some 0" and w = quiet
      and tr = tracker and issueKey = "js ''TEST-1''" and issue = mockIssue, unfolded Let_def]
  note t403 = related_failure_rethrown_then_classified
    [where tr = ?tracker403 and issueKey = "js ''TEST-123''" and e = ?e403 and w = quiet
      and issue = mockIssue and api = wiki and pageId = "js ''9''" and limit = None
      and expand = None and toolLimit = None and page = oncall_page, unfolded Let_def]
  note t500 = related_failure_rethrown_then_classified
    [where tr = ?tracker500 and issueKey = "js ''TEST-123''" and e = ?e500 and issue = mockIssue
      and w = quiet and api = wiki and pageId = "js ''9''" and limit = None
      and expand = None and toolLimit = None and page = oncall_page, unfolded Let_def]
  from t404 h404 have c1: "fst (getTopicallyRelatedPages wiki (js ''9'') (Some 5) None quiet) = Inl not_found"
    and c2: "requests (snd (getTopicallyRelatedPages wiki (js ''9'') (Some 5) None quiet)) =
     [GET_content (js ''9'') (js ''metadata.labels'')]"
    and c3: "fst (getRelatedPages_execute (Some wiki) (js ''9'') (Some 5) quiet) =
     Inl (UserError (js ''Not Found Error: The requested Confluence resource could not be found. Please check the provided ID or parameters.''))"
    by (simp_all add: r404 quiet_def)
  from t401 h401 have c4: "fst (getRelatedPages_execute (Some ?wiki401) (js ''123'') None quiet) =
     Inl (UserError (js ''Authentication Error: Failed to authenticate with Confluence. Please check your credentials.''))"
    by simp
  from tdown hdown have c5: "fst (getTopicallyRelatedPages ?wikiDown (js ''123'') (Some 5) None quiet) = Inl unreachable"
    and c6: "requests (snd (getTopicallyRelatedPages ?wikiDown (js ''123'') (Some 5) None quiet)) =
     [GET_content (js ''123'') (js ''metadata.labels''),
      GET_content_search (relatedQuery (js ''123'') oncall_page) 5 (js ''body.storage'')]"
    by (simp_all add: quiet_def)
  from tdown hdown0 have c7: "fst (getRelatedPages_execute (Some ?wikiDown) (js ''123'') (Some 0) quiet) =
     Inl (UserError (js ''An unexpected error occurred: '' @ js ''connect ECONNREFUSED''))"
    by (simp add: rnone)
  from t403 h403 have c8: "fst (getRelatedIssues ?tracker403 (js ''TEST-123'') quiet) = Inl ?e403"
    and c9: "fst (getRelatedIssues_execute (Some ?tracker403) (js ''TEST-123'') quiet) =
     Inl (UserError (js ''Permission Error: You do not have permission to access this resource in Confluence.''))"
    by simp_all
  from t500 h500 have c10: "requests (snd (getRelatedIssues ?tracker500 (js ''TEST-123'') quiet)) =
     [GET_issue (js ''TEST-123'') (Some (js ''summary,labels,project'')),
      GET_search (relatedJql (js ''TEST-123'') mockIssue) 0 10 None]"
    and c11: "fst (getRelatedIssues_execute (Some ?tracker500) (js ''TEST-123'') quiet) =
     Inl (UserError (js ''Confluence API Error: '' @ js ''500'' @ js '' '' @ js ''Internal Server Error''))"
    by (simp_all add: quiet_def n500)
  have s7: "js ''An unexpected error occurred: '' @ js ''connect ECONNREFUSED'' =
            js ''An unexpected error occurred: connect ECONNREFUSED''"
    and s11: "js ''Confluence API Error: '' @ js ''500'' @ js '' '' @ js ''Internal Server Error'' =
            js ''Confluence API Error: 500 Internal Server Error''"
    by (simp_all add: js_def)
  from c1 c2 c3 c4 c5 c6 c7 c8 c9 c10 c11 show ?thesis
    unfolding s7 s11 relatedQuery_oncall_page relatedJql_mockIssue by blast
qed

text \<open>
  C9, as stated: the error is caught once and the error thrown to the caller carries a
  friendlier message, not the raw error. \<open>getTopicallyRelatedPages\<close> for a page that
  does not exist throws the very error of the HTTP client, with its message
  \<open>Request failed with status code 404\<close>; the friendlier lines went to the console,
  twice, since the error was caught in \<open>getPageById\<close> and again in
  \<open>getTopicallyRelatedPages\<close>.
\<close>

theorem related_pages_raw_error_counterexample:
  "fst (getTopicallyRelatedPages wiki (js ''9'') None None quiet) = Inl not_found \<and>
   message not_found = js ''Request failed with status code 404'' \<and>
   console (snd (getTopicallyRelatedPages wiki (js ''9'') None None quiet)) =
     [js ''Error: 404 - Not Found'',
      js ''Resource not found. Please check your Confluence domain and the requested resource.'',
      js ''Error: 404 - Not Found'',
      js ''Resource not found. Please check your Confluence domain and the requested resource.'']"
proof -
  have n: "js ''9'' \<noteq> js ''123''"
    by (simp add: js_def)
  have h: "get_content wiki (js ''9'') (js ''metadata.labels'') = Inl not_found"
    using n by (simp add: wiki_def)
  have s: "number_toString 404 = js ''404''"
    by (simp add: number_toString.simps js_def)
  have r: "response not_found = Some \<lparr>status = 404, statusText = js ''Not Found''\<rparr>"
    "message not_found = js ''Request failed with status code 404''"
    by (simp_all add: not_found_def)
  show ?thesis
    by (simp add: getTopicallyRelatedPages_def getPageById_labels h Confluence_handleError_def r s
        quiet_def)
      (simp add: js_def)
qed

text \<open>
  C9, amended: the \<open>handleError\<close> of either client throws the error it was given,
  unchanged, after it wrote to the console the status line and, for 401 and 404 (and for
  403 in the Jira client only), a friendlier line, or the transport message when there was
  no response. The classified message is that of the \<open>UserError\<close> which the
  \<open>handleError\<close> of the tool layer throws for such an error: authentication for 401,
  permission for 403, not found for 404, status and status text for any other status, the
  transport message when there was no response.
\<close>

theorem handleError_rethrows_index_classifies:
  "fst (Confluence_handleError e w) = (Inl e :: axios_error + 'a) \<and>
   fst (Jira_handleError e w) = (Inl e :: axios_error + 'b) \<and>
   (response e = Some r \<and> http_response.status r = 401 \<longrightarrow>
      console (snd (Confluence_handleError e w :: (axios_error + 'a) \<times> world)) = console w @
        [js ''Error: '' @ number_toString (http_response.status r) @ js '' - '' @ statusText r,
         js ''Authentication failed. Please check your email and API token.''] \<and>
      console (snd (Jira_handleError e w :: (axios_error + 'b) \<times> world)) = console w @
        [js ''Error: '' @ number_toString (http_response.status r) @ js '' - '' @ statusText r,
         js ''Authentication failed. Please check your email and API token.''] \<and>
      index_handleError (AxiosError e) =
        UserError (js ''Authentication Error: Failed to authenticate with Confluence. Please check your credentials.'')) \<and>
   (response e = Some r \<and> http_response.status r = 403 \<longrightarrow>
      console (snd (Confluence_handleError e w :: (axios_error + 'a) \<times> world)) = console w @
        [js ''Error: '' @ number_toString (http_response.status r) @ js '' - '' @ statusText r] \<and>
      console (snd (Jira_handleError e w :: (axios_error + 'b) \<times> world)) = console w @
        [js ''Error: '' @ number_toString (http_response.status r) @ js '' - '' @ statusText r,
         js ''Permission denied. You do not have access to this resource.''] \<and>
      index_handleError (AxiosError e) =
        UserError (js ''Permission Error: You do not have permission to access this resource in Confluence.'')) \<and>
   (response e = Some r \<and> http_response.status r = 404 \<longrightarrow>
      console (snd (Confluence_handleError e w :: (axios_error + 'a) \<times> world)) = console w @
        [js ''Error: '' @ number_toString (http_response.status r) @ js '' - '' @ statusText r,
         js ''Resource not found. Please check your Confluence domain and the requested resource.''] \<and>
      console (snd (Jira_handleError e w :: (axios_error + 'b) \<times> world)) = console w @
        [js ''Error: '' @ number_toString (http_response.status r) @ js '' - '' @ statusText r,
         js ''Resource not found. Please check the requested resource exists.''] \<and>
      index_handleError (AxiosError e) =
        UserError (js ''Not Found Error: The requested Confluence resource could not be found. Please check the provided ID or parameters.'')) \<and>
   (response e = Some r \<and> http_response.status r \<noteq> 401 \<and> http_response.status r \<noteq> 403 \<and>
    http_response.status r \<noteq> 404 \<longrightarrow>
      console (snd (Confluence_handleError e w :: (axios_error + 'a) \<times> world)) = console w @
        [js ''Error: '' @ number_toString (http_response.status r) @ js '' - '' @ statusText r] \<and>
      console (snd (Jira_handleError e w :: (axios_error + 'b) \<times> world)) = console w @
        [js ''Error: '' @ number_toString (http_response.status r) @ js '' - '' @ statusText r] \<and>
      index_handleError (AxiosError e) =
        UserError (js ''Confluence API Error: '' @ number_toString (http_response.status r) @ js '' '' @
                   statusText r)) \<and>
   (response e = None \<longrightarrow>
      console (snd (Confluence_handleError e w :: (axios_error + 'a) \<times> world)) = console w @
        [js ''An unexpected error occurred: '' @ message e] \<and>
      console (snd (Jira_handleError e w :: (axios_error + 'b) \<times> world)) = console w @
        [js ''An unexpected error occurred: '' @ message e] \<and>
      index_handleError (AxiosError e) = UserError (js ''An unexpected error occurred: '' @ message e))"
  by (simp add: Confluence_handleError_def Jira_handleError_def index_handleError_def)

theorem handleError_rethrows_index_classifies_witness:
  "fst (Confluence_handleError not_found quiet) = (Inl not_found :: axios_error + unit) \<and>
   index_handleError (AxiosError not_found) =
     UserError (js ''Not Found Error: The requested Confluence resource could not be found. Please check the provided ID or parameters.'') \<and>
   index_handleError (AxiosError \<lparr>response = Some \<lparr>status = 401, statusText = js ''Unauthorized''\<rparr>,
                                   message = js ''Request failed with status code 401''\<rparr>) =
     UserError (js ''Authentication Error: Failed to authenticate with Confluence. Please check your credentials.'') \<and>
   console (snd (Confluence_handleError
       \<lparr>response = Some \<lparr>status = 403, statusText = js ''Forbidden''\<rparr>,
        message = js ''Request failed with status code 403''\<rparr> quiet :: (axios_error + unit) \<times> world)) =
     [js ''Error: 403 - Forbidden''] \<and>
   console (snd (Jira_handleError
       \<lparr>response = Some \<lparr>status = 403, statusText = js ''Forbidden''\<rparr>,
        message = js ''Request failed with status code 403''\<rparr> quiet :: (axios_error + unit) \<times> world)) =
     [js ''Error: 403 - Forbidden'', js ''Permission denied. You do not have access to this resource.''] \<and>
   index_handleError (AxiosError \<lparr>response = Some \<lparr>status = 500, statusText = js ''Internal Server Error''\<rparr>,
                                   message = js ''Request failed with status code 500''\<rparr>) =
     UserError (js ''Confluence API Error: 500 Internal Server Error'') \<and>
   index_handleError (AxiosError unreachable) =
     UserError (js ''An unexpected error occurred: connect ECONNREFUSED'')"
proof -
  let ?r404 = "\<lparr>status = 404, statusText = js ''Not Found''\<rparr>"
  let ?r401 = "\<lparr>status = 401, statusText = js ''Unauthorized''\<rparr>"
  let ?r403 = "\<lparr>status = 403, statusText = js ''Forbidden''\<rparr>"
  let ?r500 = "\<lparr>status = 500, statusText = js ''Internal Server Error''\<rparr>"
  let ?e401 = "\<lparr>response = Some ?r401, message = js ''Request failed with status code 401''\<rparr>"
  let ?e403 = "\<lparr>response = Some ?r403, message = js ''Request failed with status code 403''\<rparr>"
  let ?e500 = "\<lparr>response = Some ?r500, message = js ''Request failed with status code 500''\<rparr>"
  have h404: "response not_found = Some ?r404 \<and> http_response.status ?r404 = 404"
    by (simp add: not_found_def)
  have h401: "response ?e401 = Some ?r401 \<and> http_response.status ?r401 = 401"
    by simp
  have h403: "response ?e403 = Some ?r403 \<and> http_response.status ?r403 = 403"
    by simp
  have h500: "response ?e500 = Some ?r500 \<and> http_response.status ?r500 \<noteq> 401 \<and>
    http_response.status ?r500 \<noteq> 403 \<and> http_response.status ?r500 \<noteq> 404"
    by simp
  have hnone: "response unreachable = None"
    by (simp add: unreachable_def)
  have m: "message unreachable = js ''connect ECONNREFUSED''"
    by (simp add: unreachable_def)
  have n: "number_toString 403 = js ''403''" "number_toString 500 = js ''500''"
    by (simp_all add: number_toString.simps js_def)
  note t404 = handleError_rethrows_index_classifies [where e = not_found and w = quiet and r = ?r404]
  note t401 = handleError_rethrows_index_classifies [where e = ?e401 and w = quiet and r = ?r401]
  note t403 = handleError_rethrows_index_classifies
    [where e = ?e403 and w = quiet and r = ?r403 and ?'a = unit and ?'b = unit]
  note t500 = handleError_rethrows_index_classifies [where e = ?e500 and w = quiet and r = ?r500]
  note tnone = handleError_rethrows_index_classifies [where e = unreachable and w = quiet]
  from t404 h404 have c1: "fst (Confluence_handleError not_found quiet) = (Inl not_found :: axios_error + unit)"
    and c2: "index_handleError (AxiosError not_found) =
     UserError (js ''Not Found Error: The requested Confluence resource could not be found. Please check the provided ID or parameters.'')"
    by blast+
  from t401 h401 have c3: "index_handleError (AxiosError ?e401) =
     UserError (js ''Authentication Error: Failed to authenticate with Confluence. Please check your credentials.'')"
    by blast
  from t403 h403 have c4: "console (snd (Confluence_handleError ?e403 quiet :: (axios_error + unit) \<times> world)) =
      console quiet @ [js ''Error: '' @ number_toString (http_response.status ?r403) @ js '' - '' @ statusText ?r403]"
    and c5: "console (snd (Jira_handleError ?e403 quiet :: (axios_error + unit) \<times> world)) =
      console quiet @ [js ''Error: '' @ number_toString (http_response.status ?r403) @ js '' - '' @ statusText ?r403,
         js ''Permission denied. You do not have access to this resource.'']"
    by blast+
  from t500 h500 have c6: "index_handleError (AxiosError ?e500) =
      UserError (js ''Confluence API Error: '' @ number_toString (http_response.status ?r500) @ js '' '' @
                   statusText ?r500)"
    by blast
  from tnone hnone have c7: "index_handleError (AxiosError unreachable) =
      UserError (js ''An unexpected error occurred: '' @ message unreachable)"
    by blast
  from c1 c2 c3 c4 c5 c6 c7 show ?thesis
    by (simp add: m n quiet_def) (simp add: js_def)
qed

text \<open>
  C10: \<open>getSprintIssues\<close> with a non-empty list of issue types returns the answer of
  the remote service with its issues replaced by those whose issue type name is in the
  list, in their order, and every other field as it was; without a list, or with an empty
  one, it returns the answer as it was.
\<close>

theorem getSprintIssues_filters_by_issue_type:
  "(get_sprint_issue api sprintId (case startAt of None \<Rightarrow> 0 | Some n \<Rightarrow> n)
       (case maxResults of None \<Rightarrow> 50 | Some n \<Rightarrow> n) = Inr data \<and>
     issueTypes = Some types \<and> types \<noteq> [] \<longrightarrow>
       (\<exists>r. fst (getSprintIssues api sprintId startAt maxResults issueTypes w) = Inr r \<and>
            issues r = filter (\<lambda>issue. \<exists>n. fields_issuetype_name issue = Some n \<and> n \<in> set types) (issues data) \<and>
            JiraIssueListResponse.more r = JiraIssueListResponse.more data \<and>
            r = data\<lparr>issues := issues r\<rparr>)) \<and>
   (get_sprint_issue api sprintId (case startAt of None \<Rightarrow> 0 | Some n \<Rightarrow> n)
       (case maxResults of None \<Rightarrow> 50 | Some n \<Rightarrow> n) = Inr data \<and>
     (issueTypes = None \<or> issueTypes = Some []) \<longrightarrow>
       fst (getSprintIssues api sprintId startAt maxResults issueTypes w) = Inr data)"
proof (intro conjI impI)
  assume a: "get_sprint_issue api sprintId (case startAt of None \<Rightarrow> 0 | Some n \<Rightarrow> n)
       (case maxResults of None \<Rightarrow> 50 | Some n \<Rightarrow> n) = Inr data \<and>
     issueTypes = Some types \<and> types \<noteq> []"
  have p: "(\<lambda>issue. case fields_issuetype_name issue of None \<Rightarrow> False | Some n \<Rightarrow> n \<in> set types) =
           (\<lambda>issue. \<exists>n. fields_issuetype_name issue = Some n \<and> n \<in> set types)"
    by (auto split: option.splits)
  from a show "\<exists>r. fst (getSprintIssues api sprintId startAt maxResults issueTypes w) = Inr r \<and>
            issues r = filter (\<lambda>issue. \<exists>n. fields_issuetype_name issue = Some n \<and> n \<in> set types) (issues data) \<and>
            JiraIssueListResponse.more r = JiraIssueListResponse.more data \<and>
            r = data\<lparr>issues := issues r\<rparr>"
    by (simp add: getSprintIssues_def Let_def Jira_handleError_def p)
next
  assume "get_sprint_issue api sprintId (case startAt of None \<Rightarrow> 0 | Some n \<Rightarrow> n)
       (case maxResults of None \<Rightarrow> 50 | Some n \<Rightarrow> n) = Inr data \<and>
     (issueTypes = None \<or> issueTypes = Some [])"
  then show "fst (getSprintIssues api sprintId startAt maxResults issueTypes w) = Inr data"
    by (auto simp: getSprintIssues_def Let_def)
qed

theorem getSprintIssues_filters_by_issue_type_witness:
  "fst (getSprintIssues tracker 7 None (Some 10) (Some [js ''Story'', js ''Bug'']) quiet) =
     Inr \<lparr>issues = [mockIssue, mockIssue\<lparr>key := js ''TEST-125'', fields_issuetype_name := Some (js ''Bug'')\<rparr>],
          \<dots> = (10, 4, 0)\<rparr> \<and>
   fst (getSprintIssues tracker 7 None (Some 10) None quiet) =
     Inr \<lparr>issues = sprint_issues, \<dots> = (10, 4, 0)\<rparr> \<and>
   fst (getSprintIssues tracker 7 None (Some 10) (Some []) quiet) =
     Inr \<lparr>issues = sprint_issues, \<dots> = (10, 4, 0)\<rparr>"
proof -
  let ?data = "\<lparr>issues = sprint_issues, \<dots> = (10 :: int, 4 :: int, 0 :: int)\<rparr>"
  have d: "get_sprint_issue tracker 7 (case None of None \<Rightarrow> 0 | Some n \<Rightarrow> n)
       (case Some 10 of None \<Rightarrow> 50 | Some n \<Rightarrow> n) = Inr ?data"
    by (simp add: tracker_def)
  have h1: "get_sprint_issue tracker 7 (case None of None \<Rightarrow> 0 | Some n \<Rightarrow> n)
       (case Some 10 of None \<Rightarrow> 50 | Some n \<Rightarrow> n) = Inr ?data \<and>
     Some [js ''Story'', js ''Bug''] = Some [js ''Story'', js ''Bug''] \<and> [js ''Story'', js ''Bug''] \<noteq> []"
    using d by simp
  have h2: "get_sprint_issue tracker 7 (case None of None \<Rightarrow> 0 | Some n \<Rightarrow> n)
       (case Some 10 of None \<Rightarrow> 50 | Some n \<Rightarrow> n) = Inr ?data \<and>
     ((None :: jsstring list option) = None \<or> (None :: jsstring list option) = Some [])"
    using d by simp
  have h3: "get_sprint_issue tracker 7 (case None of None \<Rightarrow> 0 | Some n \<Rightarrow> n)
       (case Some 10 of None \<Rightarrow> 50 | Some n \<Rightarrow> n) = Inr ?data \<and>
     (Some ([] :: jsstring list) = None \<or> Some ([] :: jsstring list) = Some [])"
    using d by simp
  have f: "filter (\<lambda>issue. \<exists>n. fields_issuetype_name issue = Some n \<and> n \<in> set [js ''Story'', js ''Bug''])
             sprint_issues =
           [mockIssue, mockIssue\<lparr>key := js ''TEST-125'', fields_issuetype_name := Some (js ''Bug'')\<rparr>]"
    by (simp add: sprint_issues_def other_issues_def mockIssue_def js_def)
  from h1 getSprintIssues_filters_by_issue_type
    [where api = tracker and sprintId = 7 and startAt = None and maxResults = "Some 10"
      and data = ?data and issueTypes = "Some [js ''Story'', js ''Bug'']"
      and types = "[js ''Story'', js ''Bug'']" and w = quiet]
  obtain r where r: "fst (getSprintIssues tracker 7 None (Some 10) (Some [js ''Story'', js ''Bug'']) quiet) = Inr r"
    "issues r = filter (\<lambda>issue. \<exists>n. fields_issuetype_name issue = Some n \<and> n \<in> set [js ''Story'', js ''Bug''])
        (issues ?data)"
    "r = ?data\<lparr>issues := issues r\<rparr>"
    by blast
  from r(2,3) f have "r = \<lparr>issues = [mockIssue, mockIssue\<lparr>key := js ''TEST-125'', fields_issuetype_name := Some (js ''Bug'')\<rparr>],
          \<dots> = (10, 4, 0)\<rparr>"
    by simp
  with r(1) have c1: "fst (getSprintIssues tracker 7 None (Some 10) (Some [js ''Story'', js ''Bug'']) quiet) =
     Inr \<lparr>issues = [mockIssue, mockIssue\<lparr>key := js ''TEST-125'', fields_issuetype_name := Some (js ''Bug'')\<rparr>],
          \<dots> = (10, 4, 0)\<rparr>"
    by simp
  from h2 getSprintIssues_filters_by_issue_type
    [where api = tracker and sprintId = 7 and startAt = None and maxResults = "Some 10"
      and data = ?data and issueTypes = None and w = quiet]
  have c2: "fst (getSprintIssues tracker 7 None (Some 10) None quiet) = Inr ?data"
    by blast
  from h3 getSprintIssues_filters_by_issue_type
    [where api = tracker and sprintId = 7 and startAt = None and maxResults = "Some 10"
      and data = ?data and issueTypes = "Some []" and w = quiet]
  have c3: "fst (getSprintIssues tracker 7 None (Some 10) (Some []) quiet) = Inr ?data"
    by blast
  from c1 c2 c3 show ?thesis by simp
qed

end
